theory Spec2Isabelle
  imports Main "HOL-Library.Multiset"
begin

section \<open>The role-scoped record service of \<^verbatim>\<open>src/backend/server.js\<close>\<close>

text \<open>
  The server is an Express application with five routes over a Supabase (PostgREST)
  store: registration, login, homework submission, homework listing and the binding of a
  parent to a student. The source's roles are the strings \<^verbatim>\<open>student\<close>,
  \<^verbatim>\<open>teacher\<close> and \<^verbatim>\<open>parent\<close> (submitter, reviewer and guardian
  in the specification). Each route handler becomes a function from its inputs and the
  store to the HTTP response and the store afterwards.

  What lies outside the source is modelled as follows.
  \<^item> The store is three tables held as lists of rows, a log of the calls made to it,
    and the sequence that numbers new users. Every call takes a \<^emph>\<open>fault\<close>: when it
    is \<open>Some e\<close> the call fails with the error \<open>e\<close> and changes no table. The fault
    stands for every way a call can fail (network, permissions, a constraint of a schema
    that is not part of the source).
  \<^item> The \<^verbatim>\<open>.eq\<close> and \<^verbatim>\<open>.in\<close> filters are read as the conditions they
    denote. The text of an \<^verbatim>\<open>.or\<close> filter is read piece by piece, as far as
    comparisons of text columns go; what the store does with any other such text is a
    component of the store.
  \<^item> \<^verbatim>\<open>jsonwebtoken\<close> and \<^verbatim>\<open>bcrypt\<close> are symbolic: a token is its
    payload together with the key that signed it, a digest is its cost, salt and password.
  \<^item> Values of a JSON request body are strings; an absent field is \<open>None\<close>.
\<close>

subsection \<open>Response texts\<close>

definition msg_login_first :: string where
  \<comment> \<open>the literal of server.js line 33, as UTF-8 bytes\<close>
  "msg_login_first =
     [CHR 0xE8, CHR 0xAB, CHR 0x8B, CHR 0xE5, CHR 0x85, CHR 0x88, CHR 0xE7, CHR 0x99, CHR 0xBB,
      CHR 0xE5, CHR 0x85, CHR 0xA5]"

definition msg_token_invalid :: string where
  \<comment> \<open>the literal of server.js line 38, as UTF-8 bytes\<close>
  "msg_token_invalid =
     ''Token ''
     @ [CHR 0xE7, CHR 0x84, CHR 0xA1, CHR 0xE6, CHR 0x95, CHR 0x88, CHR 0xE6, CHR 0x88, CHR 0x96,
      CHR 0xE9, CHR 0x81, CHR 0x8E, CHR 0xE6, CHR 0x9C, CHR 0x9F, CHR 0xEF, CHR 0xBC, CHR 0x8C,
      CHR 0xE8, CHR 0xAB, CHR 0x8B, CHR 0xE9, CHR 0x87, CHR 0x8D, CHR 0xE6, CHR 0x96, CHR 0xB0,
      CHR 0xE7, CHR 0x99, CHR 0xBB, CHR 0xE5, CHR 0x85, CHR 0xA5]"

definition msg_fill_all :: string where
  \<comment> \<open>the literal of server.js line 59, as UTF-8 bytes\<close>
  "msg_fill_all =
     [CHR 0xE8, CHR 0xAB, CHR 0x8B, CHR 0xE5, CHR 0xA1, CHR 0xAB, CHR 0xE5, CHR 0xAF, CHR 0xAB,
      CHR 0xE5, CHR 0xAE, CHR 0x8C, CHR 0xE6, CHR 0x95, CHR 0xB4, CHR 0xE8, CHR 0xB3, CHR 0x87,
      CHR 0xE6, CHR 0x96, CHR 0x99]"

definition msg_already_registered :: string where
  \<comment> \<open>the literal of server.js line 70, as UTF-8 bytes\<close>
  "msg_already_registered =
     [CHR 0xE5, CHR 0xB8, CHR 0xB3, CHR 0xE8, CHR 0x99, CHR 0x9F, CHR 0xE6, CHR 0x88, CHR 0x96]
     @ '' Email ''
     @ [CHR 0xE5, CHR 0xB7, CHR 0xB2, CHR 0xE8, CHR 0xA2, CHR 0xAB, CHR 0xE8, CHR 0xA8, CHR 0xBB,
      CHR 0xE5, CHR 0x86, CHR 0x8A]"

definition msg_register_ok :: string where
  \<comment> \<open>the literal of server.js line 99, as UTF-8 bytes\<close>
  "msg_register_ok =
     [CHR 0xE8, CHR 0xA8, CHR 0xBB, CHR 0xE5, CHR 0x86, CHR 0x8A, CHR 0xE6, CHR 0x88, CHR 0x90,
      CHR 0xE5, CHR 0x8A, CHR 0x9F]"

definition msg_server_error :: string where
  \<comment> \<open>the literal of server.js line 106, as UTF-8 bytes\<close>
  "msg_server_error =
     [CHR 0xE4, CHR 0xBC, CHR 0xBA, CHR 0xE6, CHR 0x9C, CHR 0x8D, CHR 0xE5, CHR 0x99, CHR 0xA8,
      CHR 0xE9, CHR 0x8C, CHR 0xAF, CHR 0xE8, CHR 0xAA, CHR 0xA4]"

definition msg_database_error :: string where
  \<comment> \<open>the literal of server.js line 124, as UTF-8 bytes\<close>
  "msg_database_error =
     [CHR 0xE8, CHR 0xB3, CHR 0x87, CHR 0xE6, CHR 0x96, CHR 0x99, CHR 0xE5, CHR 0xBA, CHR 0xAB,
      CHR 0xE9, CHR 0x8C, CHR 0xAF, CHR 0xE8, CHR 0xAA, CHR 0xA4]"

definition msg_bad_credentials :: string where
  \<comment> \<open>the literal of server.js line 129, as UTF-8 bytes\<close>
  "msg_bad_credentials =
     [CHR 0xE5, CHR 0xB8, CHR 0xB3, CHR 0xE8, CHR 0x99, CHR 0x9F, CHR 0xE6, CHR 0x88, CHR 0x96,
      CHR 0xE5, CHR 0xAF, CHR 0x86, CHR 0xE7, CHR 0xA2, CHR 0xBC, CHR 0xE9, CHR 0x8C, CHR 0xAF,
      CHR 0xE8, CHR 0xAA, CHR 0xA4]"

definition msg_login_ok :: string where
  \<comment> \<open>the literal of server.js line 140, as UTF-8 bytes\<close>
  "msg_login_ok =
     [CHR 0xE7, CHR 0x99, CHR 0xBB, CHR 0xE5, CHR 0x85, CHR 0xA5, CHR 0xE6, CHR 0x88, CHR 0x90,
      CHR 0xE5, CHR 0x8A, CHR 0x9F]"

definition msg_students_only :: string where
  \<comment> \<open>the literal of server.js line 158, as UTF-8 bytes\<close>
  "msg_students_only =
     [CHR 0xE5, CHR 0x8F, CHR 0xAA, CHR 0xE6, CHR 0x9C, CHR 0x89, CHR 0xE5, CHR 0xAD, CHR 0xB8,
      CHR 0xE7, CHR 0x94, CHR 0x9F, CHR 0xE5, CHR 0x8F, CHR 0xAF, CHR 0xE4, CHR 0xBB, CHR 0xA5,
      CHR 0xE6, CHR 0x8F, CHR 0x90, CHR 0xE4, CHR 0xBA, CHR 0xA4, CHR 0xE5, CHR 0x8A, CHR 0x9F,
      CHR 0xE8, CHR 0xAA, CHR 0xB2]"

definition msg_title_content_empty :: string where
  \<comment> \<open>the literal of server.js line 163, as UTF-8 bytes\<close>
  "msg_title_content_empty =
     [CHR 0xE6, CHR 0xA8, CHR 0x99, CHR 0xE9, CHR 0xA1, CHR 0x8C, CHR 0xE8, CHR 0x88, CHR 0x87,
      CHR 0xE5, CHR 0x85, CHR 0xA7, CHR 0xE5, CHR 0xAE, CHR 0xB9, CHR 0xE4, CHR 0xB8, CHR 0x8D,
      CHR 0xE8, CHR 0x83, CHR 0xBD, CHR 0xE7, CHR 0x82, CHR 0xBA, CHR 0xE7, CHR 0xA9, CHR 0xBA]"

definition msg_submit_ok :: string where
  \<comment> \<open>the literal of server.js line 179, as UTF-8 bytes\<close>
  "msg_submit_ok =
     [CHR 0xE5, CHR 0x8A, CHR 0x9F, CHR 0xE8, CHR 0xAA, CHR 0xB2, CHR 0xE6, CHR 0x8F, CHR 0x90,
      CHR 0xE4, CHR 0xBA, CHR 0xA4, CHR 0xE6, CHR 0x88, CHR 0x90, CHR 0xE5, CHR 0x8A, CHR 0x9F,
      CHR 0xEF, CHR 0xBC, CHR 0x81]"

definition msg_submit_failed :: string where
  \<comment> \<open>the literal of server.js line 183, as UTF-8 bytes\<close>
  "msg_submit_failed =
     [CHR 0xE6, CHR 0x8F, CHR 0x90, CHR 0xE4, CHR 0xBA, CHR 0xA4, CHR 0xE5, CHR 0xA4, CHR 0xB1,
      CHR 0xE6, CHR 0x95, CHR 0x97]
     @ '': ''"

definition msg_cannot_fetch :: string where
  \<comment> \<open>the literal of server.js line 237, as UTF-8 bytes\<close>
  "msg_cannot_fetch =
     [CHR 0xE7, CHR 0x84, CHR 0xA1, CHR 0xE6, CHR 0xB3, CHR 0x95, CHR 0xE5, CHR 0x8F, CHR 0x96,
      CHR 0xE5, CHR 0xBE, CHR 0x97, CHR 0xE8, CHR 0xB3, CHR 0x87, CHR 0xE6, CHR 0x96, CHR 0x99]"

definition msg_parents_only :: string where
  \<comment> \<open>the literal of server.js line 245, as UTF-8 bytes\<close>
  "msg_parents_only =
     [CHR 0xE5, CHR 0x8F, CHR 0xAA, CHR 0xE6, CHR 0x9C, CHR 0x89, CHR 0xE5, CHR 0xAE, CHR 0xB6,
      CHR 0xE9, CHR 0x95, CHR 0xB7, CHR 0xE5, CHR 0x8F, CHR 0xAF, CHR 0xE4, CHR 0xBB, CHR 0xA5,
      CHR 0xE4, CHR 0xBD, CHR 0xBF, CHR 0xE7, CHR 0x94, CHR 0xA8, CHR 0xE6, CHR 0xAD, CHR 0xA4,
      CHR 0xE5, CHR 0x8A, CHR 0x9F, CHR 0xE8, CHR 0x83, CHR 0xBD]"

definition msg_enter_student :: string where
  \<comment> \<open>the literal of server.js line 250, as UTF-8 bytes\<close>
  "msg_enter_student =
     [CHR 0xE8, CHR 0xAB, CHR 0x8B, CHR 0xE8, CHR 0xBC, CHR 0xB8, CHR 0xE5, CHR 0x85, CHR 0xA5,
      CHR 0xE5, CHR 0xAD, CHR 0xB8, CHR 0xE7, CHR 0x94, CHR 0x9F, CHR 0xE5, CHR 0xB8, CHR 0xB3,
      CHR 0xE8, CHR 0x99, CHR 0x9F]"

definition msg_account_not_found :: string where
  \<comment> \<open>the literal of server.js line 263, as UTF-8 bytes\<close>
  "msg_account_not_found =
     [CHR 0xE6, CHR 0x89, CHR 0xBE, CHR 0xE4, CHR 0xB8, CHR 0x8D, CHR 0xE5, CHR 0x88, CHR 0xB0,
      CHR 0xE8, CHR 0xA9, CHR 0xB2, CHR 0xE5, CHR 0xB8, CHR 0xB3, CHR 0xE8, CHR 0x99, CHR 0x9F]"

definition msg_not_a_student :: string where
  \<comment> \<open>the literal of server.js line 267, as UTF-8 bytes\<close>
  "msg_not_a_student =
     [CHR 0xE8, CHR 0xA9, CHR 0xB2, CHR 0xE5, CHR 0xB8, CHR 0xB3, CHR 0xE8, CHR 0x99, CHR 0x9F,
      CHR 0xE4, CHR 0xB8, CHR 0x8D, CHR 0xE6, CHR 0x98, CHR 0xAF, CHR 0xE5, CHR 0xAD, CHR 0xB8,
      CHR 0xE7, CHR 0x94, CHR 0x9F, CHR 0xE8, CHR 0xBA, CHR 0xAB, CHR 0xE5, CHR 0x88, CHR 0x86,
      CHR 0xEF, CHR 0xBC, CHR 0x8C, CHR 0xE7, CHR 0x84, CHR 0xA1, CHR 0xE6, CHR 0xB3, CHR 0x95,
      CHR 0xE7, CHR 0xB6, CHR 0x81, CHR 0xE5, CHR 0xAE, CHR 0x9A]"

definition msg_already_bound :: string where
  \<comment> \<open>the literal of server.js line 281, as UTF-8 bytes\<close>
  "msg_already_bound =
     [CHR 0xE6, CHR 0x82, CHR 0xA8, CHR 0xE5, CHR 0xB7, CHR 0xB2, CHR 0xE7, CHR 0xB6, CHR 0x93,
      CHR 0xE7, CHR 0xB6, CHR 0x81, CHR 0xE5, CHR 0xAE, CHR 0x9A, CHR 0xE9, CHR 0x81, CHR 0x8E,
      CHR 0xE6, CHR 0xAD, CHR 0xA4, CHR 0xE5, CHR 0xAD, CHR 0xB8, CHR 0xE7, CHR 0x94, CHR 0x9F,
      CHR 0xE4, CHR 0xBA, CHR 0x86]"

definition msg_bind_ok :: string where
  \<comment> \<open>the literal of server.js line 286, as UTF-8 bytes\<close>
  "msg_bind_ok =
     [CHR 0xE6, CHR 0x88, CHR 0x90, CHR 0xE5, CHR 0x8A, CHR 0x9F, CHR 0xE7, CHR 0xB6, CHR 0x81,
      CHR 0xE5, CHR 0xAE, CHR 0x9A, CHR 0xE5, CHR 0xAD, CHR 0xB8, CHR 0xE7, CHR 0x94, CHR 0x9F,
      CHR 0xEF, CHR 0xBC, CHR 0x9A]"

definition msg_bind_failed :: string where
  \<comment> \<open>the literal of server.js line 290, as UTF-8 bytes\<close>
  "msg_bind_failed =
     [CHR 0xE7, CHR 0xB6, CHR 0x81, CHR 0xE5, CHR 0xAE, CHR 0x9A, CHR 0xE5, CHR 0xA4, CHR 0xB1,
      CHR 0xE6, CHR 0x95, CHR 0x97, CHR 0xEF, CHR 0xBC, CHR 0x8C, CHR 0xE8, CHR 0xAB, CHR 0x8B,
      CHR 0xE7, CHR 0xA8, CHR 0x8D, CHR 0xE5, CHR 0xBE, CHR 0x8C, CHR 0xE5, CHR 0x86, CHR 0x8D,
      CHR 0xE8, CHR 0xA9, CHR 0xA6]"
subsection \<open>JavaScript values\<close>

text \<open>A request body: the fields of the JSON object.\<close>

type_synonym req_body = "string \<rightharpoonup> string"

text \<open>\<^verbatim>\<open>!v\<close> for a field that is a string or absent: absent and empty are falsy.\<close>

fun falsy :: "string option \<Rightarrow> bool" where
  "falsy None = True"
| "falsy (Some v) = (v = [])"

text \<open>A value inside a template literal: \<^verbatim>\<open>`${v}`\<close>.\<close>

fun interpolate :: "string option \<Rightarrow> string" where
  "interpolate None = ''undefined''"
| "interpolate (Some v) = v"

subsection \<open>Responses\<close>

record session =
  userId :: nat
  username :: string
  role :: string

text \<open>The verified payload of a token, \<^verbatim>\<open>req.user\<close>: what was signed, with the
  times \<^verbatim>\<open>jsonwebtoken\<close> adds.\<close>

record claims = session +
  iat :: nat
  exp :: nat

datatype jwt = Jwt (payload: claims) (signed_with: string)

record homework_row =
  student_id :: nat
  student_name :: string
  title :: string
  content :: string
  status :: string
  created_at :: nat

datatype body =
    ErrorBody string  \<comment> \<open>\<^verbatim>\<open>{ error }\<close>\<close>
  | MessageBody string  \<comment> \<open>\<^verbatim>\<open>{ message }\<close>\<close>
  | AuthBody string jwt session  \<comment> \<open>\<^verbatim>\<open>{ message, token, user: { id, username, role } }\<close>\<close>
  | RowsBody "homework_row list"  \<comment> \<open>an array of homework rows\<close>
  | NullBody  \<comment> \<open>\<^verbatim>\<open>null\<close>\<close>

record response =
  http_status :: nat
  json :: body

definition reply :: "nat \<Rightarrow> body \<Rightarrow> response" where
  \<comment> \<open>\<^verbatim>\<open>res.status(n).json(b)\<close>\<close>
  "reply n b = \<lparr>http_status = n, json = b\<rparr>"

subsection \<open>The signing key and the token codec\<close>

type_synonym env = "string \<rightharpoonup> string"

definition JWT_SECRET :: "env \<Rightarrow> string" where
  \<comment> \<open>\<^verbatim>\<open>process.env.JWT_SECRET || 'default-secret-key'\<close>: an empty value is falsy too\<close>
  "JWT_SECRET env =
     (if falsy (env ''JWT_SECRET'') then ''default-secret-key'' else interpolate (env ''JWT_SECRET''))"

definition JWT_EXPIRES_IN :: nat where
  \<comment> \<open>\<^verbatim>\<open>'7d'\<close>, in seconds\<close>
  "JWT_EXPIRES_IN = 7 * 24 * 60 * 60"

definition jwt_sign :: "session \<Rightarrow> string \<Rightarrow> nat \<Rightarrow> nat \<Rightarrow> jwt" where
  \<comment> \<open>\<^verbatim>\<open>jwt.sign(p, secret, { expiresIn })\<close> at the time \<open>now\<close>\<close>
  "jwt_sign p secret expiresIn now =
     Jwt \<lparr>userId = userId p, username = username p, role = role p,
          iat = now, exp = now + expiresIn\<rparr> secret"

text \<open>One piece of a header between two spaces: a compact token, or any other text.\<close>

datatype piece = Text string | Compact jwt

fun jwt_verify :: "piece \<Rightarrow> string \<Rightarrow> nat \<Rightarrow> claims option" where
  \<comment> \<open>\<^verbatim>\<open>jwt.verify(token, secret, (err, user) => ...)\<close>: \<open>None\<close> is \<open>err\<close>\<close>
  "jwt_verify (Text t) secret now = None"
| "jwt_verify (Compact (Jwt c k)) secret now =
     (if k = secret \<and> now < exp c then Some c else None)"

subsection \<open>The auth gate\<close>

text \<open>The \<^verbatim>\<open>authorization\<close> header is given as \<^verbatim>\<open>split(' ')\<close> returns it, a
  list of pieces; \<open>None\<close> is no header. An empty header is the list of one empty text.\<close>

fun token_falsy :: "piece option \<Rightarrow> bool" where
  "token_falsy None = True"
| "token_falsy (Some (Text t)) = (t = [])"
| "token_falsy (Some (Compact j)) = False"

definition authenticateToken :: "env \<Rightarrow> nat \<Rightarrow> piece list option \<Rightarrow> response + claims" where
  "authenticateToken env now authHeader =
     (let token = (case authHeader of
                     None \<Rightarrow> None
                   | Some ps \<Rightarrow> if 1 < length ps then Some (ps ! 1) else None)
      in if token_falsy token then Inl (reply 401 (ErrorBody msg_login_first))
         else (case token of
                 None \<Rightarrow> Inl (reply 401 (ErrorBody msg_login_first))
               | Some t \<Rightarrow>
                   (case jwt_verify t (JWT_SECRET env) now of
                      None \<Rightarrow> Inl (reply 403 (ErrorBody msg_token_invalid))
                    | Some user \<Rightarrow> Inr user)))"

subsection \<open>The password hasher\<close>

datatype digest = Bcrypt (cost: nat) (salt_of: string) (hashed: string)

definition bcrypt_hash :: "string \<Rightarrow> nat \<Rightarrow> string \<Rightarrow> digest" where
  \<comment> \<open>\<^verbatim>\<open>bcrypt.hash(password, rounds)\<close>; the salt is the library's random choice\<close>
  "bcrypt_hash password rounds salt = Bcrypt rounds salt password"

definition bcrypt_compare :: "string \<Rightarrow> digest \<Rightarrow> bool" where
  "bcrypt_compare password h = (hashed h = password)"

subsection \<open>The store\<close>

record user_row =
  u_id :: nat
  u_username :: string
  u_email :: string
  u_password_hash :: digest
  u_role :: string
  u_is_verified :: bool

record relation_row =
  parent_id :: nat
  child_id :: nat

datatype verb = Select | Insert

type_synonym call = "verb \<times> string"

record db_error =
  code :: string
  message :: string

definition PGRST100 :: db_error where
  "PGRST100 = \<lparr>code = ''PGRST100'', message = ''failed to parse logic tree''\<rparr>"

text \<open>The last field is the store's answer to a filter text that the reading below does
  not cover: the rows it selects from the table, or its error.\<close>

record store =
  users :: "user_row list"
  homeworks :: "homework_row list"
  parent_child :: "relation_row list"
  users_seq :: nat
  calls :: "call list"
  other_filters :: "string \<Rightarrow> user_row list \<Rightarrow> db_error + user_row list"

definition strict_filters :: "string \<Rightarrow> user_row list \<Rightarrow> db_error + user_row list" where
  \<comment> \<open>a store that refuses every such text\<close>
  "strict_filters t rows = Inl PGRST100"

definition empty_store :: store where
  "empty_store = \<lparr>users = [], homeworks = [], parent_child = [], users_seq = 0, calls = [],
                   other_filters = strict_filters\<rparr>"

text \<open>What a Supabase call resolves to: \<^verbatim>\<open>{ data, error }\<close>, \<open>None\<close> for
  \<^verbatim>\<open>null\<close>.\<close>

record 'a pg_response =
  data :: "'a option"
  error :: "db_error option"

definition succeeded :: "'a option \<Rightarrow> 'a pg_response" where
  "succeeded d = \<lparr>data = d, error = None\<rparr>"

definition failed :: "db_error \<Rightarrow> 'a pg_response" where
  "failed e = \<lparr>data = None, error = Some e\<rparr>"

definition logged :: "call \<Rightarrow> store \<Rightarrow> store" where
  "logged c s = s\<lparr>calls := calls s @ [c]\<rparr>"

definition PGRST116 :: db_error where
  "PGRST116 = \<lparr>code = ''PGRST116'',
               message = ''JSON object requested, multiple (or no) rows returned''\<rparr>"

fun maybeSingle :: "'a list \<Rightarrow> 'a pg_response" where
  \<comment> \<open>no row is \<^verbatim>\<open>null\<close> without an error; more than one row is an error\<close>
  "maybeSingle [] = succeeded None"
| "maybeSingle [r] = succeeded (Some r)"
| "maybeSingle (r # r' # rs) = failed PGRST116"

text \<open>
  The argument of \<^verbatim>\<open>.or(...)\<close> is a text into which the handlers splice their
  input as it came: \<^verbatim>\<open>`username.eq.${a},email.eq.${b}`\<close>. PostgREST reads it as a
  list of conditions between commas, each \<^verbatim>\<open>column.operator.value\<close>, and selects
  the rows that meet one of them. The reading modelled here covers the texts without
  parentheses, braces, double quotes and backslashes: a piece without two dots makes the
  whole text malformed, which the store answers with an error; a piece that is
  \<^verbatim>\<open>eq\<close> on one of the text columns \<^verbatim>\<open>username\<close>, \<^verbatim>\<open>email\<close> and
  \<^verbatim>\<open>role\<close> with a value that is not empty is that comparison. Every other text
  (nesting, quoting, other operators and columns) is left to \<open>other_filters\<close> of the
  store.
\<close>

fun split_on :: "char \<Rightarrow> string \<Rightarrow> string list" where
  "split_on c [] = [[]]"
| "split_on c (x # xs) =
     (if x = c then [] # split_on c xs
      else (case split_on c xs of [] \<Rightarrow> [[x]] | p # ps \<Rightarrow> (x # p) # ps))"

definition break_at :: "char \<Rightarrow> string \<Rightarrow> (string \<times> string) option" where
  \<comment> \<open>the text before and the text after the first \<open>c\<close>\<close>
  "break_at c t =
     (if c \<in> set t
      then Some (takeWhile (\<lambda>x. x \<noteq> c) t, tl (dropWhile (\<lambda>x. x \<noteq> c) t))
      else None)"

datatype text_column = Username | Email | Role

definition column_named :: "string \<Rightarrow> text_column option" where
  "column_named n =
     (if n = ''username'' then Some Username
      else if n = ''email'' then Some Email
      else if n = ''role'' then Some Role
      else None)"

fun cell :: "text_column \<Rightarrow> user_row \<Rightarrow> string" where
  "cell Username u = u_username u"
| "cell Email u = u_email u"
| "cell Role u = u_role u"

datatype reading = Equals text_column string | Malformed | Unread

definition read_condition :: "string \<Rightarrow> reading" where
  "read_condition t =
     (case break_at CHR ''.'' t of
        None \<Rightarrow> Malformed
      | Some (col, rest) \<Rightarrow>
          (case break_at CHR ''.'' rest of
             None \<Rightarrow> Malformed
           | Some (oper, val) \<Rightarrow>
               (case column_named col of
                  None \<Rightarrow> Unread
                | Some c \<Rightarrow> if oper = ''eq'' \<and> val \<noteq> [] then Equals c val else Unread)))"

fun holds :: "reading \<Rightarrow> user_row \<Rightarrow> bool" where
  "holds (Equals c v) u = (cell c u = v)"
| "holds Malformed u = False"
| "holds Unread u = False"

definition nesting :: "char list" where
  \<comment> \<open>parentheses, braces, the double quote and the backslash\<close>
  "nesting = ''(){}'' @ [CHR 0x22, CHR 0x5C]"

definition or_rows ::
  "(string \<Rightarrow> user_row list \<Rightarrow> db_error + user_row list) \<Rightarrow> string \<Rightarrow> user_row list
     \<Rightarrow> db_error + user_row list" where
  "or_rows other t rows =
     (if list_ex (\<lambda>c. c \<in> set nesting) t then other t rows
      else
        (let rs = map read_condition (split_on CHR '','' t)
         in if Malformed \<in> set rs then Inl PGRST100
            else if Unread \<in> set rs then other t rows
            else Inr (filter (\<lambda>u. list_ex (\<lambda>r. holds r u) rs) rows)))"

definition users_or ::
  "db_error option \<Rightarrow> string \<Rightarrow> string \<Rightarrow> store \<Rightarrow> user_row pg_response \<times> store" where
  \<comment> \<open>\<^verbatim>\<open>from('users').select(..).or(`username.eq.${a},email.eq.${b}`).maybeSingle()\<close>\<close>
  "users_or fault a b s =
     ((case fault of
         Some e \<Rightarrow> failed e
       | None \<Rightarrow>
           (case or_rows (other_filters s) (''username.eq.'' @ a @ '',email.eq.'' @ b) (users s) of
              Inl e \<Rightarrow> failed e
            | Inr rows \<Rightarrow> maybeSingle rows)),
      logged (Select, ''users'') s)"

text \<open>A name that the reading takes as one value: not empty, and free of the comma and
  of the characters of nesting and quoting.\<close>

definition plain :: "string \<Rightarrow> bool" where
  "plain a \<longleftrightarrow> a \<noteq> [] \<and> \<not> list_ex (\<lambda>c. c = CHR '','' \<or> c \<in> set nesting) a"

definition users_eq_username ::
  "db_error option \<Rightarrow> string \<Rightarrow> store \<Rightarrow> user_row pg_response \<times> store" where
  \<comment> \<open>\<^verbatim>\<open>from('users').select('id, role').eq('username', a).maybeSingle()\<close>\<close>
  "users_eq_username fault a s =
     ((case fault of
         Some e \<Rightarrow> failed e
       | None \<Rightarrow> maybeSingle (filter (\<lambda>u. u_username u = a) (users s))),
      logged (Select, ''users'') s)"

definition users_insert ::
  "db_error option \<Rightarrow> string \<Rightarrow> string \<Rightarrow> digest \<Rightarrow> string \<Rightarrow> bool \<Rightarrow> store
     \<Rightarrow> user_row pg_response \<times> store" where
  \<comment> \<open>\<^verbatim>\<open>from('users').insert({..}).select().single()\<close>: the new row, with the id
      the store gives it\<close>
  "users_insert fault name mail h r v s =
     (case fault of
        Some e \<Rightarrow> (failed e, logged (Insert, ''users'') s)
      | None \<Rightarrow>
          (let row = \<lparr>u_id = users_seq s, u_username = name, u_email = mail,
                      u_password_hash = h, u_role = r, u_is_verified = v\<rparr>
           in (succeeded (Some row),
               logged (Insert, ''users'')
                 (s\<lparr>users := users s @ [row], users_seq := Suc (users_seq s)\<rparr>))))"

definition homeworks_insert ::
  "db_error option \<Rightarrow> nat \<Rightarrow> nat \<Rightarrow> string \<Rightarrow> string \<Rightarrow> string \<Rightarrow> string \<Rightarrow> store
     \<Rightarrow> unit pg_response \<times> store" where
  \<comment> \<open>\<^verbatim>\<open>from('homeworks').insert({..})\<close>; \<^verbatim>\<open>created_at\<close> is the store's clock\<close>
  "homeworks_insert fault now sid sname t c st s =
     (case fault of
        Some e \<Rightarrow> (failed e, logged (Insert, ''homeworks'') s)
      | None \<Rightarrow>
          (let row = \<lparr>student_id = sid, student_name = sname, title = t, content = c,
                      status = st, created_at = now\<rparr>
           in (succeeded None,
               logged (Insert, ''homeworks'') (s\<lparr>homeworks := homeworks s @ [row]\<rparr>))))"

text \<open>The query on \<^verbatim>\<open>homeworks\<close> as the handler builds it: always
  \<^verbatim>\<open>select('*').order('created_at', { ascending: false })\<close>, then at most one filter.\<close>

datatype hw_filter = Unfiltered | Eq_student_id nat | In_student_id "nat list"

fun matches :: "hw_filter \<Rightarrow> homework_row \<Rightarrow> bool" where
  "matches Unfiltered h = True"
| "matches (Eq_student_id i) h = (student_id h = i)"
| "matches (In_student_id ids) h = (student_id h \<in> set ids)"

definition homeworks_select ::
  "db_error option \<Rightarrow> hw_filter \<Rightarrow> store \<Rightarrow> homework_row list pg_response \<times> store" where
  "homeworks_select fault q s =
     ((case fault of
         Some e \<Rightarrow> failed e
       | None \<Rightarrow> succeeded (Some (rev (sort_key created_at (filter (matches q) (homeworks s)))))),
      logged (Select, ''homeworks'') s)"

definition parent_child_select ::
  "db_error option \<Rightarrow> nat \<Rightarrow> store \<Rightarrow> relation_row list pg_response \<times> store" where
  \<comment> \<open>\<^verbatim>\<open>from('parent_child').select('child_id').eq('parent_id', p)\<close>\<close>
  "parent_child_select fault p s =
     ((case fault of
         Some e \<Rightarrow> failed e
       | None \<Rightarrow> succeeded (Some (filter (\<lambda>r. parent_id r = p) (parent_child s)))),
      logged (Select, ''parent_child'') s)"

definition parent_child_insert ::
  "db_error option \<Rightarrow> nat \<Rightarrow> nat \<Rightarrow> store \<Rightarrow> unit pg_response \<times> store" where
  \<comment> \<open>\<^verbatim>\<open>from('parent_child').insert({ parent_id, child_id })\<close>\<close>
  "parent_child_insert fault p c s =
     (case fault of
        Some e \<Rightarrow> (failed e, logged (Insert, ''parent_child'') s)
      | None \<Rightarrow>
          (succeeded None,
           logged (Insert, ''parent_child'')
             (s\<lparr>parent_child := parent_child s @ [\<lparr>parent_id = p, child_id = c\<rparr>]\<rparr>)))"

subsection \<open>Registration and login\<close>

definition js_or :: "string option \<Rightarrow> string \<Rightarrow> string" where
  \<comment> \<open>\<^verbatim>\<open>v || d\<close>\<close>
  "js_or v d = (if falsy v then d else the v)"

definition public_view :: "user_row \<Rightarrow> session" where
  \<comment> \<open>\<^verbatim>\<open>{ id, username, role }\<close> of a user row; also the payload that is signed\<close>
  "public_view u = \<lparr>userId = u_id u, username = u_username u, role = u_role u\<rparr>"

text \<open>\<^verbatim>\<open>POST /api/register\<close>. The duplicate check reads only \<^verbatim>\<open>data\<close> of its
  lookup. \<open>f1\<close> and \<open>f2\<close> are the faults of the lookup and of the insert, \<open>slt\<close> is
  the salt that \<^verbatim>\<open>bcrypt\<close> draws.\<close>

definition register ::
  "env \<Rightarrow> nat \<Rightarrow> string \<Rightarrow> db_error option \<Rightarrow> db_error option \<Rightarrow> req_body \<Rightarrow> store
     \<Rightarrow> response \<times> store" where
  "register env now slt f1 f2 b s =
     (if falsy (b ''username'') \<or> falsy (b ''email'') \<or> falsy (b ''password'')
      then (reply 400 (ErrorBody msg_fill_all), s)
      else
        (let (r1, s1) = users_or f1 (interpolate (b ''username'')) (interpolate (b ''email'')) s;
             existingUser = data r1
         in if existingUser \<noteq> None
            then (reply 409 (ErrorBody msg_already_registered), s1)
            else
              (let passwordHash = bcrypt_hash (the (b ''password'')) 10 slt;
                   (r2, s2) = users_insert f2 (the (b ''username'')) (the (b ''email''))
                                passwordHash (js_or (b ''role'') ''student'') True s1
               in case error r2 of
                    Some insertError \<Rightarrow> (reply 500 (ErrorBody msg_server_error), s2)
                  | None \<Rightarrow>
                      (case data r2 of
                         None \<Rightarrow> (reply 500 (ErrorBody msg_server_error), s2)
                       | Some newUser \<Rightarrow>
                           (reply 201
                              (AuthBody msg_register_ok
                                 (jwt_sign (public_view newUser) (JWT_SECRET env) JWT_EXPIRES_IN now)
                                 (public_view newUser)),
                            s2)))))"

text \<open>The row that a registration inserts, from the object literal of the insert: the
  password only as its digest, the role of the body or \<^verbatim>\<open>student\<close>.\<close>

definition new_row :: "string \<Rightarrow> req_body \<Rightarrow> store \<Rightarrow> user_row" where
  "new_row slt b s =
     \<lparr>u_id = users_seq s, u_username = the (b ''username''), u_email = the (b ''email''),
      u_password_hash = Bcrypt 10 slt (the (b ''password'')),
      u_role = js_or (b ''role'') ''student'', u_is_verified = True\<rparr>"

text \<open>\<^verbatim>\<open>POST /api/login\<close>. Nothing is validated: an absent \<^verbatim>\<open>username\<close> is
  looked up as the text \<^verbatim>\<open>undefined\<close>, and \<^verbatim>\<open>bcrypt.compare\<close> rejects an absent
  password, which the \<^verbatim>\<open>catch\<close> block answers.\<close>

definition login ::
  "env \<Rightarrow> nat \<Rightarrow> db_error option \<Rightarrow> req_body \<Rightarrow> store \<Rightarrow> response \<times> store" where
  "login env now f1 b s =
     (let (r1, s1) = users_or f1 (interpolate (b ''username'')) (interpolate (b ''username'')) s
      in case error r1 of
           Some e \<Rightarrow> (reply 500 (ErrorBody msg_database_error), s1)
         | None \<Rightarrow>
             (case data r1 of
                None \<Rightarrow> (reply 401 (ErrorBody msg_bad_credentials), s1)
              | Some user \<Rightarrow>
                  (case b ''password'' of
                     None \<Rightarrow> (reply 500 (ErrorBody msg_server_error), s1)
                   | Some p \<Rightarrow>
                       if \<not> bcrypt_compare p (u_password_hash user)
                       then (reply 401 (ErrorBody msg_bad_credentials), s1)
                       else (reply 200
                               (AuthBody msg_login_ok
                                  (jwt_sign (public_view user) (JWT_SECRET env) JWT_EXPIRES_IN now)
                                  (public_view user)),
                             s1))))"

subsection \<open>Homework submission and listing\<close>

text \<open>\<^verbatim>\<open>POST /api/homework\<close>, after the gate: \<open>user\<close> is \<^verbatim>\<open>req.user\<close>.\<close>

definition post_homework ::
  "claims \<Rightarrow> nat \<Rightarrow> db_error option \<Rightarrow> req_body \<Rightarrow> store \<Rightarrow> response \<times> store" where
  "post_homework user now f1 b s =
     (if role user \<noteq> ''student''
      then (reply 403 (ErrorBody msg_students_only), s)
      else if falsy (b ''title'') \<or> falsy (b ''content'')
      then (reply 400 (ErrorBody msg_title_content_empty), s)
      else
        (let (r1, s1) = homeworks_insert f1 now (userId user) (username user)
                          (the (b ''title'')) (the (b ''content'')) ''pending'' s
         in case error r1 of
              Some e \<Rightarrow> (reply 500 (ErrorBody (msg_submit_failed @ message e)), s1)
            | None \<Rightarrow> (reply 200 (MessageBody msg_submit_ok), s1)))"

text \<open>\<^verbatim>\<open>GET /api/homework\<close>, after the gate. \<open>f1\<close> is the fault of the lookup in
  \<^verbatim>\<open>parent_child\<close>, \<open>f2\<close> that of the query on \<^verbatim>\<open>homeworks\<close>. The branches
  on the role have no final \<^verbatim>\<open>else\<close>: with any other role the query stays as it
  was built, without a filter.\<close>

definition scope ::
  "claims \<Rightarrow> db_error option \<Rightarrow> store \<Rightarrow> (response + hw_filter) \<times> store" where
  \<comment> \<open>the branches on the role: the filter put on the query, or the response of the
      early \<^verbatim>\<open>return\<close> and of the \<^verbatim>\<open>throw\<close>\<close>
  "scope user f1 s =
     (if role user = ''student'' then (Inr (Eq_student_id (userId user)), s)
      else if role user = ''teacher'' then (Inr Unfiltered, s)
      else if role user = ''parent'' then
        (let (r1, s1) = parent_child_select f1 (userId user) s
         in case error r1 of
              Some relError \<Rightarrow> (Inl (reply 500 (ErrorBody msg_cannot_fetch)), s1)
            | None \<Rightarrow>
                (case data r1 of
                   None \<Rightarrow> (Inl (reply 200 (RowsBody [])), s1)
                 | Some relations \<Rightarrow>
                     if length relations = 0 then (Inl (reply 200 (RowsBody [])), s1)
                     else (Inr (In_student_id (map child_id relations)), s1)))
      else (Inr Unfiltered, s))"

definition run_query ::
  "db_error option \<Rightarrow> hw_filter \<Rightarrow> store \<Rightarrow> response \<times> store" where
  \<comment> \<open>\<^verbatim>\<open>await query\<close> and what follows it\<close>
  "run_query f2 q s =
     (let (r2, s2) = homeworks_select f2 q s
      in case error r2 of
           Some e \<Rightarrow> (reply 500 (ErrorBody msg_cannot_fetch), s2)
         | None \<Rightarrow>
             (case data r2 of
                None \<Rightarrow> (reply 200 NullBody, s2)
              | Some hs \<Rightarrow> (reply 200 (RowsBody hs), s2)))"

definition get_homework ::
  "claims \<Rightarrow> db_error option \<Rightarrow> db_error option \<Rightarrow> store \<Rightarrow> response \<times> store" where
  "get_homework user f1 f2 s =
     (case scope user f1 s of
        (Inl early, s1) \<Rightarrow> (early, s1)
      | (Inr q, s1) \<Rightarrow> run_query f2 q s1)"

subsection \<open>Binding a parent to a student\<close>

text \<open>\<^verbatim>\<open>POST /api/bind-child\<close>, after the gate. \<open>f1\<close> is the fault of the lookup of
  the child, \<open>f2\<close> that of the insert.\<close>

definition bind_child ::
  "claims \<Rightarrow> db_error option \<Rightarrow> db_error option \<Rightarrow> req_body \<Rightarrow> store \<Rightarrow> response \<times> store" where
  "bind_child user f1 f2 b s =
     (if role user \<noteq> ''parent''
      then (reply 403 (ErrorBody msg_parents_only), s)
      else if falsy (b ''childUsername'')
      then (reply 400 (ErrorBody msg_enter_student), s)
      else
        (let (r1, s1) = users_eq_username f1 (the (b ''childUsername'')) s
         in case error r1 of
              Some findError \<Rightarrow> (reply 500 (ErrorBody msg_bind_failed), s1)
            | None \<Rightarrow>
                (case data r1 of
                   None \<Rightarrow> (reply 404 (ErrorBody msg_account_not_found), s1)
                 | Some child \<Rightarrow>
                     if u_role child \<noteq> ''student''
                     then (reply 400 (ErrorBody msg_not_a_student), s1)
                     else
                       (let (r2, s2) = parent_child_insert f2 (userId user) (u_id child) s1
                        in case error r2 of
                             Some bindError \<Rightarrow>
                               if code bindError = ''23505''
                               then (reply 409 (ErrorBody msg_already_bound), s2)
                               else (reply 500 (ErrorBody msg_bind_failed), s2)
                           | None \<Rightarrow>
                               (reply 200
                                  (MessageBody (msg_bind_ok @ interpolate (b ''childUsername''))),
                                s2)))))"

subsection \<open>Protected routes\<close>

definition protected ::
  "env \<Rightarrow> nat \<Rightarrow> piece list option \<Rightarrow> (claims \<Rightarrow> store \<Rightarrow> response \<times> store) \<Rightarrow> store
     \<Rightarrow> response \<times> store" where
  \<comment> \<open>a route with \<^verbatim>\<open>authenticateToken\<close> in front of its handler\<close>
  "protected env now authHeader handler s =
     (case authenticateToken env now authHeader of
        Inl rejection \<Rightarrow> (rejection, s)
      | Inr user \<Rightarrow> handler user s)"

subsection \<open>Reachable stores\<close>

text \<open>The stores that the five routes produce from an empty one, whatever it does with
  filter texts of its own. The caller of a protected route is any payload at all: whoever
  holds the signing key chooses it.\<close>

inductive reachable :: "store \<Rightarrow> bool" where
  start: "reachable (empty_store\<lparr>other_filters := other\<rparr>)"
| by_register: "reachable s \<Longrightarrow> reachable (snd (register env now slt f1 f2 b s))"
| by_login: "reachable s \<Longrightarrow> reachable (snd (login env now f1 b s))"
| by_post_homework: "reachable s \<Longrightarrow> reachable (snd (post_homework user now f1 b s))"
| by_get_homework: "reachable s \<Longrightarrow> reachable (snd (get_homework user f1 f2 s))"
| by_bind_child: "reachable s \<Longrightarrow> reachable (snd (bind_child user f1 f2 b s))"

text \<open>What the binding flow is to maintain: user ids are below the sequence and
  distinct, and the child of every binding is the id of a user whose role is
  \<^verbatim>\<open>student\<close>.\<close>

definition well_bound :: "store \<Rightarrow> bool" where
  "well_bound s \<longleftrightarrow>
     (\<forall>u \<in> set (users s). u_id u < users_seq s)
     \<and> distinct (map u_id (users s))
     \<and> (\<forall>rel \<in> set (parent_child s).
           \<exists>u \<in> set (users s). u_id u = child_id rel \<and> u_role u = ''student'')"

subsection \<open>A school, for the examples\<close>

definition student_row :: "nat \<Rightarrow> string \<Rightarrow> string \<Rightarrow> user_row" where
  "student_row i n r =
     \<lparr>u_id = i, u_username = n, u_email = n @ ''@school.example'',
      u_password_hash = Bcrypt 10 ''salt'' (''pw-'' @ n), u_role = r, u_is_verified = True\<rparr>"

definition school :: store where
  "school =
     \<lparr>users = [student_row 0 ''sam'' ''student'', student_row 1 ''sue'' ''student'',
               student_row 2 ''tina'' ''teacher'', student_row 3 ''pat'' ''parent'',
               student_row 4 ''zed'' ''student'', student_row 5 ''quin'' ''parent''],
      homeworks =
        [\<lparr>student_id = 0, student_name = ''sam'', title = ''essay'', content = ''draft'',
          status = ''pending'', created_at = 10\<rparr>,
         \<lparr>student_id = 1, student_name = ''sue'', title = ''sums'', content = ''page 3'',
          status = ''pending'', created_at = 11\<rparr>,
         \<lparr>student_id = 4, student_name = ''zed'', title = ''map'', content = ''rivers'',
          status = ''pending'', created_at = 12\<rparr>,
         \<lparr>student_id = 0, student_name = ''sam'', title = ''poem'', content = ''verse'',
          status = ''pending'', created_at = 13\<rparr>],
      parent_child = [\<lparr>parent_id = 3, child_id = 0\<rparr>, \<lparr>parent_id = 3, child_id = 1\<rparr>],
      users_seq = 6, calls = [], other_filters = strict_filters\<rparr>"

definition caller :: "nat \<Rightarrow> string \<Rightarrow> string \<Rightarrow> claims" where
  \<comment> \<open>the payload of a token issued at time 0\<close>
  "caller i n r = \<lparr>userId = i, username = n, role = r, iat = 0, exp = JWT_EXPIRES_IN\<rparr>"

definition refused :: db_error where
  "refused = \<lparr>code = ''42501'', message = ''permission denied for table homeworks''\<rparr>"

definition spoof :: req_body where
  \<comment> \<open>a submission that names another student as its owner\<close>
  "spoof = [''title'' \<mapsto> ''essay'', ''content'' \<mapsto> ''draft'',
            ''student_id'' \<mapsto> ''1'', ''student_name'' \<mapsto> ''sue'']"

definition sam_login :: req_body where
  "sam_login = [''username'' \<mapsto> ''sam'', ''password'' \<mapsto> ''pw-sam'']"

definition new_teacher :: req_body where
  "new_teacher = [''username'' \<mapsto> ''ned'', ''email'' \<mapsto> ''ned@school.example'',
                  ''password'' \<mapsto> ''pw-ned'', ''role'' \<mapsto> ''teacher'']"

definition sam_body :: req_body where
  "sam_body = [''username'' \<mapsto> ''sam'', ''email'' \<mapsto> ''sam@school.example'',
               ''password'' \<mapsto> ''pw-sam'']"

definition first_day :: store where
  \<comment> \<open>sam registers, then a parent binds sam\<close>
  "first_day =
     snd (bind_child (caller 1 ''pat'' ''parent'') None None [''childUsername'' \<mapsto> ''sam'']
            (snd (register Map.empty 1 ''salt'' None None sam_body empty_store)))"

definition unreachable :: db_error where
  "unreachable = \<lparr>code = ''08006'', message = ''connection failure''\<rparr>"

definition duplicate_key :: db_error where
  "duplicate_key = \<lparr>code = ''23505'',
                     message = ''duplicate key value violates unique constraint''\<rparr>"

definition ann_body :: req_body where
  \<comment> \<open>a registration whose email is the bare text \<^verbatim>\<open>ned\<close>\<close>
  "ann_body = [''username'' \<mapsto> ''ann'', ''email'' \<mapsto> ''ned'', ''password'' \<mapsto> ''pw-ann'']"

definition school_ann :: store where
  "school_ann = snd (register Map.empty 19 ''salt'' None None ann_body school)"

definition ned_login :: req_body where
  "ned_login = [''username'' \<mapsto> ''ned'', ''password'' \<mapsto> ''pw-ned'']"

definition bob_body :: req_body where
  \<comment> \<open>a registration whose username is an email address\<close>
  "bob_body = [''username'' \<mapsto> ''ned@school.example'', ''email'' \<mapsto> ''bob@school.example'',
               ''password'' \<mapsto> ''pw-bob'']"

definition school_bob :: store where
  "school_bob = snd (register Map.empty 19 ''salt'' None None bob_body school)"

definition school_ned :: store where
  \<comment> \<open>after ann, ned registers\<close>
  "school_ned = snd (register Map.empty 20 ''salt'' None None new_teacher school_ann)"

definition ned_email_login :: req_body where
  "ned_email_login = [''username'' \<mapsto> ''ned@school.example'', ''password'' \<mapsto> ''pw-ned'']"

definition spliced_body :: req_body where
  \<comment> \<open>a registration whose username carries a condition of its own\<close>
  "spliced_body = [''username'' \<mapsto> ''x,role.eq.teacher'', ''email'' \<mapsto> ''x@school.example'',
                   ''password'' \<mapsto> ''pw-x'']"

definition mallory_body :: req_body where
  \<comment> \<open>a registration that names a role of its own\<close>
  "mallory_body = [''username'' \<mapsto> ''mallory'', ''email'' \<mapsto> ''mallory@school.example'',
                   ''password'' \<mapsto> ''pw-mallory'', ''role'' \<mapsto> ''admin'']"

section \<open>Reading the filter of the lookup\<close>

text \<open>For names that are plain, the lookup selects the rows whose username is the first
  name or whose email is the second.\<close>

lemma split_on_none: "c \<notin> set p \<Longrightarrow> split_on c p = [p]"
  by (induction p) auto

lemma split_on_first: "c \<notin> set p \<Longrightarrow> split_on c (p @ c # q) = p # split_on c q"
  by (induction p) auto

lemma read_username: "a \<noteq> [] \<Longrightarrow> read_condition (''username.eq.'' @ a) = Equals Username a"
  by (simp add: read_condition_def break_at_def column_named_def)

lemma read_email: "b \<noteq> [] \<Longrightarrow> read_condition (''email.eq.'' @ b) = Equals Email b"
  by (simp add: read_condition_def break_at_def column_named_def)

lemma or_rows_plain:
  assumes "plain a" and "plain b"
  shows "or_rows other (''username.eq.'' @ a @ '',email.eq.'' @ b) rows
           = Inr (filter (\<lambda>u. u_username u = a \<or> u_email u = b) rows)"
proof -
  let ?t = "''username.eq.'' @ a @ '',email.eq.'' @ b"
  from assms have ne: "a \<noteq> []" "b \<noteq> []"
    and ca: "CHR '','' \<notin> set a" and cb: "CHR '','' \<notin> set b"
    and na: "\<forall>c \<in> set a. c \<notin> set nesting" and nb: "\<forall>c \<in> set b. c \<notin> set nesting"
    by (auto simp: plain_def list_ex_iff)
  have flat: "\<not> list_ex (\<lambda>c. c \<in> set nesting) ?t"
    using na nb by (auto simp: list_ex_iff nesting_def)
  have ua: "CHR '','' \<notin> set (''username.eq.'' @ a)" and eb: "CHR '','' \<notin> set (''email.eq.'' @ b)"
    using ca cb by simp_all
  have shape: "?t = (''username.eq.'' @ a) @ CHR '','' # (''email.eq.'' @ b)"
    by simp
  have "split_on CHR '','' ((''username.eq.'' @ a) @ CHR '','' # (''email.eq.'' @ b))
          = (''username.eq.'' @ a) # split_on CHR '','' (''email.eq.'' @ b)"
    using ua by (rule split_on_first)
  moreover have "split_on CHR '','' (''email.eq.'' @ b) = [''email.eq.'' @ b]"
    using eb by (rule split_on_none)
  ultimately have pieces: "split_on CHR '','' ?t = [''username.eq.'' @ a, ''email.eq.'' @ b]"
    unfolding shape by (rule trans [OF _ arg_cong])
  have rd: "map read_condition [''username.eq.'' @ a, ''email.eq.'' @ b]
              = [Equals Username a, Equals Email b]"
    by (simp only: list.map read_username [OF ne(1)] read_email [OF ne(2)])
  show ?thesis
    unfolding or_rows_def Let_def pieces rd
    using flat by (simp del: append.simps)
qed


lemma users_or_plain:
  "plain a \<Longrightarrow> plain b \<Longrightarrow>
     fst (users_or None a b s)
       = maybeSingle (filter (\<lambda>u. u_username u = a \<or> u_email u = b) (users s))"
  by (simp add: users_or_def or_rows_plain del: append.simps)

lemma users_or_failed: "fst (users_or (Some e) a b s) = failed e"
  by (simp add: users_or_def)

text \<open>A name with a comma in it is more conditions than one, or a malformed text.\<close>

lemma spliced_rows:
  "or_rows other ''username.eq.x,role.eq.teacher,email.eq.x@school.example'' rows
     = Inr (filter (\<lambda>u. u_username u = ''x'' \<or> u_role u = ''teacher''
                        \<or> u_email u = ''x@school.example'') rows)"
  by (simp add: or_rows_def nesting_def read_condition_def break_at_def column_named_def)

lemma spliced:
  "fst (users_or None ''x,role.eq.teacher'' ''x@school.example'' school)
     = succeeded (Some (student_row 2 ''tina'' ''teacher''))"
proof -
  have "fst (users_or None ''x,role.eq.teacher'' ''x@school.example'' school)
          = maybeSingle (filter (\<lambda>u. u_username u = ''x'' \<or> u_role u = ''teacher''
                        \<or> u_email u = ''x@school.example'') (users school))"
    using spliced_rows [of "other_filters school" "users school"]
    by (simp add: users_or_def)
  also have "\<dots> = succeeded (Some (student_row 2 ''tina'' ''teacher''))"
    by (simp add: school_def student_row_def)
  finally show ?thesis .
qed

lemma unreadable: "read_condition ''b'' = Malformed"
  by (simp add: read_condition_def break_at_def)

lemma broken: "fst (users_or None ''a,b'' ''a,b'' s) = failed PGRST100"
  by (simp add: users_or_def or_rows_def nesting_def unreadable)

section \<open>What the calls do to the tables\<close>

lemma logged_simps [simp]:
  "users (logged c s) = users s" "users_seq (logged c s) = users_seq s"
  "parent_child (logged c s) = parent_child s" "homeworks (logged c s) = homeworks s"
  by (simp_all add: logged_def)

lemma reads_keep [simp]:
  "snd (users_or f a b s) = logged (Select, ''users'') s"
  "snd (users_eq_username f a s) = logged (Select, ''users'') s"
  "snd (homeworks_select f q s) = logged (Select, ''homeworks'') s"
  "snd (parent_child_select f p s) = logged (Select, ''parent_child'') s"
  by (simp_all add: users_or_def users_eq_username_def homeworks_select_def
        parent_child_select_def)

lemma homeworks_insert_keeps [simp]:
  "users (snd (homeworks_insert f now i n t c st s)) = users s"
  "users_seq (snd (homeworks_insert f now i n t c st s)) = users_seq s"
  "parent_child (snd (homeworks_insert f now i n t c st s)) = parent_child s"
  by (simp_all add: homeworks_insert_def Let_def split: option.splits)

lemma login_effect:
  "users (snd (login env now f1 b s)) = users s
   \<and> users_seq (snd (login env now f1 b s)) = users_seq s
   \<and> parent_child (snd (login env now f1 b s)) = parent_child s"
  by (simp add: login_def split_beta split: option.splits)

lemma post_homework_effect:
  "users (snd (post_homework user now f1 b s)) = users s
   \<and> users_seq (snd (post_homework user now f1 b s)) = users_seq s
   \<and> parent_child (snd (post_homework user now f1 b s)) = parent_child s"
  by (simp add: post_homework_def split_beta split: option.splits)

lemma run_query_effect [simp]:
  "snd (run_query f2 q s) = logged (Select, ''homeworks'') s"
  by (simp add: run_query_def split_beta split: option.splits)

lemma scope_effect:
  "users (snd (scope user f1 s)) = users s
   \<and> users_seq (snd (scope user f1 s)) = users_seq s
   \<and> parent_child (snd (scope user f1 s)) = parent_child s"
  by (simp add: scope_def split_beta split: option.splits)

lemma get_homework_effect:
  "users (snd (get_homework user f1 f2 s)) = users s
   \<and> users_seq (snd (get_homework user f1 f2 s)) = users_seq s
   \<and> parent_child (snd (get_homework user f1 f2 s)) = parent_child s"
  using scope_effect [of user f1 s]
  by (cases "scope user f1 s") (auto simp: get_homework_def split: sum.splits)

lemma maybeSingle_Some: "data (maybeSingle rows) = Some r \<Longrightarrow> rows = [r]"
  by (cases rows rule: maybeSingle.cases) (simp_all add: succeeded_def failed_def)

lemma users_eq_username_found:
  "data (fst (users_eq_username f a s)) = Some child \<Longrightarrow> child \<in> set (users s)"
proof -
  assume d: "data (fst (users_eq_username f a s)) = Some child"
  then have "f = None"
    by (cases f) (simp_all add: users_eq_username_def failed_def)
  with d have "filter (\<lambda>u. u_username u = a) (users s) = [child]"
    by (simp add: users_eq_username_def maybeSingle_Some)
  then have "child \<in> set (filter (\<lambda>u. u_username u = a) (users s))"
    by simp
  then show ?thesis by simp
qed

lemma users_insert_effect:
  "parent_child (snd (users_insert f n e h r v s)) = parent_child s
   \<and> (users (snd (users_insert f n e h r v s)) = users s
        \<and> users_seq (snd (users_insert f n e h r v s)) = users_seq s
      \<or> (\<exists>row. u_id row = users_seq s
            \<and> users (snd (users_insert f n e h r v s)) = users s @ [row]
            \<and> users_seq (snd (users_insert f n e h r v s)) = Suc (users_seq s)))"
  by (cases f) (simp_all add: users_insert_def Let_def)

lemma parent_child_insert_effect:
  "users (snd (parent_child_insert f p c s)) = users s
   \<and> users_seq (snd (parent_child_insert f p c s)) = users_seq s
   \<and> (parent_child (snd (parent_child_insert f p c s)) = parent_child s
      \<or> parent_child (snd (parent_child_insert f p c s))
          = parent_child s @ [\<lparr>parent_id = p, child_id = c\<rparr>])"
  by (cases f) (simp_all add: parent_child_insert_def)

lemma register_effect:
  "parent_child (snd (register env now slt f1 f2 b s)) = parent_child s
   \<and> (users (snd (register env now slt f1 f2 b s)) = users s
        \<and> users_seq (snd (register env now slt f1 f2 b s)) = users_seq s
      \<or> (\<exists>row. u_id row = users_seq s
            \<and> users (snd (register env now slt f1 f2 b s)) = users s @ [row]
            \<and> users_seq (snd (register env now slt f1 f2 b s)) = Suc (users_seq s)))"
proof (cases "falsy (b ''username'') \<or> falsy (b ''email'') \<or> falsy (b ''password'')
                \<or> data (fst (users_or f1 (interpolate (b ''username''))
                                  (interpolate (b ''email'')) s)) \<noteq> None")
  case True
  then show ?thesis
    by (auto simp: register_def split_beta)
next
  case False
  let ?s1 = "logged (Select, ''users'') s"
  let ?ins = "users_insert f2 (the (b ''username'')) (the (b ''email''))
                (bcrypt_hash (the (b ''password'')) 10 slt) (js_or (b ''role'') ''student'') True ?s1"
  from False have "snd (register env now slt f1 f2 b s) = snd ?ins"
    by (simp add: register_def split_beta Let_def split: option.splits)
  with users_insert_effect [of f2 "the (b ''username'')" "the (b ''email'')"
         "bcrypt_hash (the (b ''password'')) 10 slt" "js_or (b ''role'') ''student''" True ?s1]
  show ?thesis by simp
qed

lemma bind_child_effect:
  "users (snd (bind_child user f1 f2 b s)) = users s
   \<and> users_seq (snd (bind_child user f1 f2 b s)) = users_seq s
   \<and> (parent_child (snd (bind_child user f1 f2 b s)) = parent_child s
      \<or> (\<exists>child \<in> set (users s). u_role child = ''student''
            \<and> parent_child (snd (bind_child user f1 f2 b s))
                = parent_child s @ [\<lparr>parent_id = userId user, child_id = u_id child\<rparr>]))"
proof (cases "role user = ''parent'' \<and> \<not> falsy (b ''childUsername'')
               \<and> error (fst (users_eq_username f1 (the (b ''childUsername'')) s)) = None")
  case False
  then show ?thesis
    by (auto simp: bind_child_def split_beta split: option.splits)
next
  case True
  show ?thesis
  proof (cases "data (fst (users_eq_username f1 (the (b ''childUsername'')) s))")
    case None
    with True show ?thesis
      by (simp add: bind_child_def split_beta)
  next
    case (Some child)
    then have mem: "child \<in> set (users s)"
      by (rule users_eq_username_found)
    show ?thesis
    proof (cases "u_role child = ''student''")
      case False
      with True Some show ?thesis
        by (simp add: bind_child_def split_beta)
    next
      case student: True
      let ?s1 = "logged (Select, ''users'') s"
      let ?ins = "parent_child_insert f2 (userId user) (u_id child) ?s1"
      from True Some student have "snd (bind_child user f1 f2 b s) = snd ?ins"
        by (simp add: bind_child_def split_beta Let_def split: option.splits)
      with parent_child_insert_effect [of f2 "userId user" "u_id child" ?s1] mem student
      show ?thesis by auto
    qed
  qed
qed

lemma register_created:
  assumes "\<not> falsy (b ''username'')" and "\<not> falsy (b ''email'')" and "\<not> falsy (b ''password'')"
      and "data (fst (users_or f1 (interpolate (b ''username'')) (interpolate (b ''email'')) s)) = None"
  shows "register env now slt f1 None b s =
           (reply 201
              (AuthBody msg_register_ok
                 (jwt_sign (public_view (new_row slt b s)) (JWT_SECRET env) JWT_EXPIRES_IN now)
                 (public_view (new_row slt b s))),
            logged (Insert, ''users'')
              (logged (Select, ''users'') s
                 \<lparr>users := users s @ [new_row slt b s], users_seq := Suc (users_seq s)\<rparr>))"
  using assms
  by (simp add: register_def users_insert_def succeeded_def bcrypt_hash_def new_row_def
        logged_def Let_def split_beta)

section \<open>The stores of the examples\<close>

lemma lookup_none:
  assumes "f1 \<noteq> None
           \<or> plain a \<and> plain c \<and> (\<forall>u \<in> set (users s). u_username u \<noteq> a \<and> u_email u \<noteq> c)"
  shows "data (fst (users_or f1 a c s)) = None"
proof (cases f1)
  case (Some e)
  then show ?thesis by (simp add: users_or_failed failed_def)
next
  case None
  with assms have p: "plain a" "plain c"
    and "filter (\<lambda>u. u_username u = a \<or> u_email u = c) (users s) = []"
    by (auto simp: filter_empty_conv)
  with None show ?thesis by (simp add: users_or_plain succeeded_def)
qed

lemma school_ann_created:
  "register Map.empty 19 ''salt'' None None ann_body school
     = (reply 201
          (AuthBody msg_register_ok
             (jwt_sign (public_view (new_row ''salt'' ann_body school)) (JWT_SECRET Map.empty)
                JWT_EXPIRES_IN 19)
             (public_view (new_row ''salt'' ann_body school))),
        logged (Insert, ''users'')
          (logged (Select, ''users'') school
             \<lparr>users := users school @ [new_row ''salt'' ann_body school],
              users_seq := Suc (users_seq school)\<rparr>))"
  by (rule register_created)
    (simp_all add: ann_body_def lookup_none plain_def nesting_def school_def student_row_def)

lemma school_ann_users:
  "users school_ann = users school @
     [\<lparr>u_id = 6, u_username = ''ann'', u_email = ''ned'',
       u_password_hash = Bcrypt 10 ''salt'' ''pw-ann'', u_role = ''student'',
       u_is_verified = True\<rparr>]"
  unfolding school_ann_def school_ann_created
  by (simp add: ann_body_def new_row_def js_or_def school_def)

lemma school_ann_seq: "users_seq school_ann = 7"
  unfolding school_ann_def school_ann_created
  by (simp add: school_def)

lemma school_bob_created:
  "register Map.empty 19 ''salt'' None None bob_body school
     = (reply 201
          (AuthBody msg_register_ok
             (jwt_sign (public_view (new_row ''salt'' bob_body school)) (JWT_SECRET Map.empty)
                JWT_EXPIRES_IN 19)
             (public_view (new_row ''salt'' bob_body school))),
        logged (Insert, ''users'')
          (logged (Select, ''users'') school
             \<lparr>users := users school @ [new_row ''salt'' bob_body school],
              users_seq := Suc (users_seq school)\<rparr>))"
  by (rule register_created)
    (simp_all add: bob_body_def lookup_none plain_def nesting_def school_def student_row_def)

lemma school_bob_users:
  "users school_bob = users school @
     [\<lparr>u_id = 6, u_username = ''ned@school.example'', u_email = ''bob@school.example'',
       u_password_hash = Bcrypt 10 ''salt'' ''pw-bob'', u_role = ''student'',
       u_is_verified = True\<rparr>]"
  unfolding school_bob_def school_bob_created
  by (simp add: bob_body_def new_row_def js_or_def school_def)

lemma register_ned_elsewhere:
  assumes "users s = users school @ [r]" and "u_username r \<noteq> ''ned''"
      and "u_email r \<noteq> ''ned@school.example''"
  shows "register Map.empty 20 ''salt'' None None new_teacher s
           = (reply 201
                (AuthBody msg_register_ok
                   (jwt_sign (public_view (new_row ''salt'' new_teacher s)) (JWT_SECRET Map.empty)
                      JWT_EXPIRES_IN 20)
                   (public_view (new_row ''salt'' new_teacher s))),
              logged (Insert, ''users'')
                (logged (Select, ''users'') s
                   \<lparr>users := users s @ [new_row ''salt'' new_teacher s],
                    users_seq := Suc (users_seq s)\<rparr>))"
proof -
  have pres: "\<not> falsy (new_teacher ''username'')" "\<not> falsy (new_teacher ''email'')"
     "\<not> falsy (new_teacher ''password'')"
    by (simp_all add: new_teacher_def)
  have "data (fst (users_or None (interpolate (new_teacher ''username''))
                     (interpolate (new_teacher ''email'')) s)) = None"
    using assms
    by (intro lookup_none)
      (simp add: new_teacher_def plain_def nesting_def school_def student_row_def)
  from register_created [OF pres this] show ?thesis .
qed

lemma school_ned_users:
  "users school_ned = users school @
     [\<lparr>u_id = 6, u_username = ''ann'', u_email = ''ned'',
       u_password_hash = Bcrypt 10 ''salt'' ''pw-ann'', u_role = ''student'',
       u_is_verified = True\<rparr>,
      \<lparr>u_id = 7, u_username = ''ned'', u_email = ''ned@school.example'',
       u_password_hash = Bcrypt 10 ''salt'' ''pw-ned'', u_role = ''teacher'',
       u_is_verified = True\<rparr>]"
proof -
  have "register Map.empty 20 ''salt'' None None new_teacher school_ann
          = (reply 201
               (AuthBody msg_register_ok
                  (jwt_sign (public_view (new_row ''salt'' new_teacher school_ann))
                     (JWT_SECRET Map.empty) JWT_EXPIRES_IN 20)
                  (public_view (new_row ''salt'' new_teacher school_ann))),
             logged (Insert, ''users'')
               (logged (Select, ''users'') school_ann
                  \<lparr>users := users school_ann @ [new_row ''salt'' new_teacher school_ann],
                   users_seq := Suc (users_seq school_ann)\<rparr>))"
    by (rule register_ned_elsewhere [OF school_ann_users]) simp_all
  then show ?thesis
    unfolding school_ned_def
    by (simp add: school_ann_users school_ann_seq new_row_def new_teacher_def js_or_def)
qed

section \<open>Record submission\<close>

text \<open>
  Claim C7. Whenever the caller's role is anything but \<^verbatim>\<open>student\<close> (a teacher, a
  parent, or any other text), \<^verbatim>\<open>POST /api/homework\<close> answers 403 with the
  students-only message and returns the store exactly as it was: no table has changed and
  no call to the store has been logged, so no insert was issued.
\<close>

theorem post_homework_unauthorized:
  "role user \<noteq> ''student'' \<Longrightarrow>
     post_homework user now f1 b s = (reply 403 (ErrorBody msg_students_only), s)"
  by (simp add: post_homework_def)

theorem post_homework_unauthorized_witness:
  "role (caller 2 ''tina'' ''teacher'') \<noteq> ''student''
   \<and> post_homework (caller 2 ''tina'' ''teacher'') 20 None
         [''title'' \<mapsto> ''essay'', ''content'' \<mapsto> ''draft''] school
       = (reply 403 (ErrorBody msg_students_only), school)"
  using post_homework_unauthorized
    [of "caller 2 ''tina'' ''teacher''" 20 None
        "[''title'' \<mapsto> ''essay'', ''content'' \<mapsto> ''draft'']" school]
  by (simp add: caller_def)

text \<open>
  Claim C6. When a submission succeeds (status 200), the store's homework table has grown
  by exactly one row; its \<^verbatim>\<open>student_id\<close> and \<^verbatim>\<open>student_name\<close> are the
  \<^verbatim>\<open>userId\<close> and \<^verbatim>\<open>username\<close> of the verified payload, its status is
  \<^verbatim>\<open>pending\<close>, and of the request body only \<^verbatim>\<open>title\<close> and \<^verbatim>\<open>content\<close>
  reach it, whatever other fields the body carries.
\<close>

theorem post_homework_owner:
  assumes "post_homework user now f1 b s = (res, s')" and "http_status res = 200"
  shows "homeworks s' = homeworks s @
           [\<lparr>student_id = userId user, student_name = username user,
             title = the (b ''title''), content = the (b ''content''),
             status = ''pending'', created_at = now\<rparr>]"
  using assms
  by (auto simp: post_homework_def homeworks_insert_def reply_def logged_def failed_def
        succeeded_def split: if_splits option.splits)

theorem post_homework_owner_witness:
  "http_status (fst (post_homework (caller 0 ''sam'' ''student'') 20 None spoof school)) = 200
   \<and> homeworks (snd (post_homework (caller 0 ''sam'' ''student'') 20 None spoof school))
       = homeworks school @
           [\<lparr>student_id = 0, student_name = ''sam'', title = ''essay'', content = ''draft'',
             status = ''pending'', created_at = 20\<rparr>]"
proof -
  have ok: "http_status (fst (post_homework (caller 0 ''sam'' ''student'') 20 None spoof school))
              = 200"
    by (simp add: post_homework_def caller_def spoof_def homeworks_insert_def succeeded_def
          reply_def)
  from post_homework_owner [OF surjective_pairing ok] ok show ?thesis
    by (simp add: caller_def spoof_def)
qed

section \<open>Record listing\<close>

lemma newest_first:
  "sorted_wrt (\<lambda>a b. created_at b \<le> created_at a) (rev (sort_key created_at hs))"
proof -
  have "sorted (map created_at (sort_key created_at hs))"
    by (rule sorted_sort_key)
  then have "sorted_wrt (\<lambda>a b. created_at a \<le> created_at b) (sort_key created_at hs)"
    by (simp only: sorted_map)
  then show ?thesis
    by (simp only: sorted_wrt_rev)
qed

lemma run_query_ok:
  "\<exists>hs. run_query None q s = (reply 200 (RowsBody hs), logged (Select, ''homeworks'') s)
     \<and> mset hs = mset (filter (matches q) (homeworks s))
     \<and> sorted_wrt (\<lambda>a b. created_at b \<le> created_at a) hs"
  by (rule exI [of _ "rev (sort_key created_at (filter (matches q) (homeworks s)))"])
    (simp add: run_query_def homeworks_select_def succeeded_def newest_first)

lemma scope_student:
  "role user = ''student'' \<Longrightarrow> scope user f1 s = (Inr (Eq_student_id (userId user)), s)"
  by (simp add: scope_def)

lemma scope_teacher:
  "role user = ''teacher'' \<Longrightarrow> scope user f1 s = (Inr Unfiltered, s)"
  by (simp add: scope_def)

lemma scope_parent_none:
  "role user = ''parent'' \<Longrightarrow> filter (\<lambda>r. parent_id r = userId user) (parent_child s) = [] \<Longrightarrow>
     scope user None s = (Inl (reply 200 (RowsBody [])), logged (Select, ''parent_child'') s)"
  by (simp add: scope_def parent_child_select_def succeeded_def)

lemma scope_parent_some:
  "role user = ''parent'' \<Longrightarrow> filter (\<lambda>r. parent_id r = userId user) (parent_child s) \<noteq> [] \<Longrightarrow>
     scope user None s =
       (Inr (In_student_id (map child_id (filter (\<lambda>r. parent_id r = userId user) (parent_child s)))),
        logged (Select, ''parent_child'') s)"
  by (simp add: scope_def parent_child_select_def succeeded_def)

text \<open>
  Claim C2. When the store answers, \<^verbatim>\<open>GET /api/homework\<close> returns status 200 with
  exactly the rows of the caller's scope (as a multiset), latest \<^verbatim>\<open>created_at\<close>
  first: for a student the rows whose \<^verbatim>\<open>student_id\<close> is the caller's
  \<^verbatim>\<open>userId\<close>; for a teacher every row; for a parent the rows of the children bound to
  the caller in \<^verbatim>\<open>parent_child\<close>. A parent bound to no child gets the empty list and
  the only call logged is the lookup of the bindings: the query on \<^verbatim>\<open>homeworks\<close> is
  not issued, whatever its fault would have been.
\<close>

theorem get_homework_scoped:
  "(role user = ''student'' \<longrightarrow>
      (\<exists>hs. get_homework user f1 None s = (reply 200 (RowsBody hs), logged (Select, ''homeworks'') s)
         \<and> mset hs = mset (filter (\<lambda>h. student_id h = userId user) (homeworks s))
         \<and> sorted_wrt (\<lambda>a b. created_at b \<le> created_at a) hs))
   \<and> (role user = ''teacher'' \<longrightarrow>
      (\<exists>hs. get_homework user f1 None s = (reply 200 (RowsBody hs), logged (Select, ''homeworks'') s)
         \<and> mset hs = mset (homeworks s)
         \<and> sorted_wrt (\<lambda>a b. created_at b \<le> created_at a) hs))
   \<and> (role user = ''parent'' \<longrightarrow>
        kids = map child_id (filter (\<lambda>r. parent_id r = userId user) (parent_child s)) \<longrightarrow>
      (kids = [] \<longrightarrow>
         get_homework user None f2 s = (reply 200 (RowsBody []), logged (Select, ''parent_child'') s))
      \<and> (kids \<noteq> [] \<longrightarrow>
         (\<exists>hs. get_homework user None None s
                  = (reply 200 (RowsBody hs),
                     logged (Select, ''homeworks'') (logged (Select, ''parent_child'') s))
            \<and> mset hs = mset (filter (\<lambda>h. student_id h \<in> set kids) (homeworks s))
            \<and> sorted_wrt (\<lambda>a b. created_at b \<le> created_at a) hs)))"
proof (intro conjI impI)
  assume r: "role user = ''student''"
  obtain hs where "run_query None (Eq_student_id (userId user)) s
                     = (reply 200 (RowsBody hs), logged (Select, ''homeworks'') s)"
      and "mset hs = mset (filter (matches (Eq_student_id (userId user))) (homeworks s))"
      and "sorted_wrt (\<lambda>a b. created_at b \<le> created_at a) hs"
    using run_query_ok by blast
  with r show "\<exists>hs. get_homework user f1 None s = (reply 200 (RowsBody hs), logged (Select, ''homeworks'') s)
         \<and> mset hs = mset (filter (\<lambda>h. student_id h = userId user) (homeworks s))
         \<and> sorted_wrt (\<lambda>a b. created_at b \<le> created_at a) hs"
    by (intro exI [of _ hs]) (simp add: get_homework_def scope_student)
next
  assume r: "role user = ''teacher''"
  obtain hs where "run_query None Unfiltered s
                     = (reply 200 (RowsBody hs), logged (Select, ''homeworks'') s)"
      and "mset hs = mset (filter (matches Unfiltered) (homeworks s))"
      and "sorted_wrt (\<lambda>a b. created_at b \<le> created_at a) hs"
    using run_query_ok by blast
  with r show "\<exists>hs. get_homework user f1 None s = (reply 200 (RowsBody hs), logged (Select, ''homeworks'') s)
         \<and> mset hs = mset (homeworks s)
         \<and> sorted_wrt (\<lambda>a b. created_at b \<le> created_at a) hs"
    by (intro exI [of _ hs]) (simp add: get_homework_def scope_teacher)
next
  assume "role user = ''parent''"
     and "kids = map child_id (filter (\<lambda>r. parent_id r = userId user) (parent_child s))"
     and "kids = []"
  then show "get_homework user None f2 s = (reply 200 (RowsBody []), logged (Select, ''parent_child'') s)"
    by (simp add: get_homework_def scope_parent_none)
next
  assume p: "role user = ''parent''"
     and k: "kids = map child_id (filter (\<lambda>r. parent_id r = userId user) (parent_child s))"
     and "kids \<noteq> []"
  then have ne: "filter (\<lambda>r. parent_id r = userId user) (parent_child s) \<noteq> []" by auto
  obtain hs where "run_query None (In_student_id kids) (logged (Select, ''parent_child'') s)
                     = (reply 200 (RowsBody hs),
                        logged (Select, ''homeworks'') (logged (Select, ''parent_child'') s))"
      and "mset hs = mset (filter (matches (In_student_id kids))
                             (homeworks (logged (Select, ''parent_child'') s)))"
      and "sorted_wrt (\<lambda>a b. created_at b \<le> created_at a) hs"
    using run_query_ok by blast
  then show "\<exists>hs. get_homework user None None s
                  = (reply 200 (RowsBody hs),
                     logged (Select, ''homeworks'') (logged (Select, ''parent_child'') s))
            \<and> mset hs = mset (filter (\<lambda>h. student_id h \<in> set kids) (homeworks s))
            \<and> sorted_wrt (\<lambda>a b. created_at b \<le> created_at a) hs"
    by (intro exI [of _ hs]) (simp add: get_homework_def scope_parent_some [OF p ne] k logged_def)
qed

theorem get_homework_scoped_witness:
  "(\<exists>hs. get_homework (caller 0 ''sam'' ''student'') None None school
            = (reply 200 (RowsBody hs), logged (Select, ''homeworks'') school)
       \<and> mset hs = mset (filter (\<lambda>h. student_id h = 0) (homeworks school))
       \<and> sorted_wrt (\<lambda>a b. created_at b \<le> created_at a) hs)
   \<and> (\<exists>hs. get_homework (caller 2 ''tina'' ''teacher'') None None school
            = (reply 200 (RowsBody hs), logged (Select, ''homeworks'') school)
       \<and> mset hs = mset (homeworks school)
       \<and> sorted_wrt (\<lambda>a b. created_at b \<le> created_at a) hs)
   \<and> map child_id (filter (\<lambda>r. parent_id r = 5) (parent_child school)) = []
   \<and> get_homework (caller 5 ''quin'' ''parent'') None (Some refused) school
        = (reply 200 (RowsBody []), logged (Select, ''parent_child'') school)
   \<and> map child_id (filter (\<lambda>r. parent_id r = 3) (parent_child school)) = [0, 1]
   \<and> (\<exists>hs. get_homework (caller 3 ''pat'' ''parent'') None None school
            = (reply 200 (RowsBody hs),
               logged (Select, ''homeworks'') (logged (Select, ''parent_child'') school))
       \<and> mset hs = mset (filter (\<lambda>h. student_id h \<in> set [0, 1]) (homeworks school))
       \<and> sorted_wrt (\<lambda>a b. created_at b \<le> created_at a) hs)"
proof -
  have quin: "map child_id (filter (\<lambda>r. parent_id r = 5) (parent_child school)) = []"
    by (simp add: school_def)
  have pat: "map child_id (filter (\<lambda>r. parent_id r = 3) (parent_child school)) = [0, 1]"
    by (simp add: school_def)
  show ?thesis
    using get_homework_scoped [where user = "caller 0 ''sam'' ''student''" and s = school and ?f1.0 = None]
      get_homework_scoped [where user = "caller 2 ''tina'' ''teacher''" and s = school and ?f1.0 = None]
      get_homework_scoped [where user = "caller 5 ''quin'' ''parent''" and s = school
         and kids = "[]" and ?f2.0 = "Some refused"]
      get_homework_scoped [where user = "caller 3 ''pat'' ''parent''" and s = school
         and kids = "[0, 1]"]
      quin pat
    by (simp add: caller_def)
qed

text \<open>With a role that is none of the three, no branch changes the query.\<close>

lemma get_homework_other_role:
  "role user \<noteq> ''student'' \<Longrightarrow> role user \<noteq> ''parent'' \<Longrightarrow>
     get_homework user f1 f2 s = run_query f2 Unfiltered s"
  by (simp add: get_homework_def scope_def)

text \<open>Such a role is within reach: the registration stores and signs whatever role its
  body names, and the gate hands the signed payload to the listing.\<close>

lemma admin_registers_and_lists:
  "fst (register Map.empty 20 ''salt'' None None mallory_body school)
     = reply 201
         (AuthBody msg_register_ok
            (Jwt \<lparr>userId = 6, username = ''mallory'', role = ''admin'', iat = 20,
                  exp = 20 + JWT_EXPIRES_IN\<rparr> ''default-secret-key'')
            \<lparr>userId = 6, username = ''mallory'', role = ''admin''\<rparr>)
   \<and> fst (protected Map.empty 21
             (Some [Text ''Bearer'',
                    Compact (Jwt \<lparr>userId = 6, username = ''mallory'', role = ''admin'', iat = 20,
                                  exp = 20 + JWT_EXPIRES_IN\<rparr> ''default-secret-key'')])
             (\<lambda>user. get_homework user None None)
             (snd (register Map.empty 20 ''salt'' None None mallory_body school)))
       = reply 200 (RowsBody (rev (homeworks school)))"
proof -
  have none: "data (fst (users_or None (interpolate (mallory_body ''username''))
                     (interpolate (mallory_body ''email'')) school)) = None"
    by (simp add: mallory_body_def users_or_plain users_or_failed plain_def nesting_def split_beta school_def student_row_def succeeded_def)
  have pres: "\<not> falsy (mallory_body ''username'')" "\<not> falsy (mallory_body ''email'')"
     "\<not> falsy (mallory_body ''password'')"
    by (simp_all add: mallory_body_def)
  note reg = register_created [OF pres none, of Map.empty 20 "''salt''"]
  have seq: "users_seq school = 6" by (simp add: school_def)
  have first: "fst (register Map.empty 20 ''salt'' None None mallory_body school)
     = reply 201
         (AuthBody msg_register_ok
            (Jwt \<lparr>userId = 6, username = ''mallory'', role = ''admin'', iat = 20,
                  exp = 20 + JWT_EXPIRES_IN\<rparr> ''default-secret-key'')
            \<lparr>userId = 6, username = ''mallory'', role = ''admin''\<rparr>)"
    unfolding reg
    by (simp add: mallory_body_def new_row_def public_view_def jwt_sign_def JWT_SECRET_def
          js_or_def seq)
  have hw: "homeworks (snd (register Map.empty 20 ''salt'' None None mallory_body school))
              = homeworks school"
    by (simp add: reg)
  have gate: "authenticateToken Map.empty 21
             (Some [Text ''Bearer'',
                    Compact (Jwt \<lparr>userId = 6, username = ''mallory'', role = ''admin'', iat = 20,
                                  exp = 20 + JWT_EXPIRES_IN\<rparr> ''default-secret-key'')])
          = Inr \<lparr>userId = 6, username = ''mallory'', role = ''admin'', iat = 20,
                                  exp = 20 + JWT_EXPIRES_IN\<rparr>"
    by (simp add: authenticateToken_def JWT_SECRET_def JWT_EXPIRES_IN_def)
  have "fst (protected Map.empty 21
             (Some [Text ''Bearer'',
                    Compact (Jwt \<lparr>userId = 6, username = ''mallory'', role = ''admin'', iat = 20,
                                  exp = 20 + JWT_EXPIRES_IN\<rparr> ''default-secret-key'')])
             (\<lambda>user. get_homework user None None)
             (snd (register Map.empty 20 ''salt'' None None mallory_body school)))
       = reply 200 (RowsBody (rev (homeworks school)))"
    unfolding protected_def gate
    by (simp add: get_homework_def scope_def run_query_def homeworks_select_def succeeded_def hw)
      (simp add: school_def)
  with first show ?thesis by blast
qed

text \<open>
  Claim C1 asks that a caller whose role is none of \<^verbatim>\<open>student\<close>,
  \<^verbatim>\<open>teacher\<close> and \<^verbatim>\<open>parent\<close> be refused and get no rows. The handler does
  the opposite: the caller with the role \<^verbatim>\<open>admin\<close> gets status 200 and every row of
  the table, the very response a teacher gets.
\<close>

theorem get_homework_unrecognized_role:
  "get_homework (caller 6 ''mallory'' ''admin'') None None school
     = get_homework (caller 2 ''tina'' ''teacher'') None None school
   \<and> fst (get_homework (caller 6 ''mallory'' ''admin'') None None school)
     = reply 200 (RowsBody (rev (homeworks school)))"
  by (simp add: get_homework_def scope_def caller_def run_query_def homeworks_select_def
        succeeded_def school_def)

section \<open>Store failures\<close>

lemma login_lookup_failure:
  "error (fst (users_or f1 (interpolate (b ''username'')) (interpolate (b ''username'')) s)) \<noteq> None
   \<Longrightarrow> fst (login env now f1 b s) = reply 500 (ErrorBody msg_database_error)"
  by (auto simp: login_def split_beta split: option.splits)

lemma register_insert_failure:
  assumes "\<not> falsy (b ''username'')" and "\<not> falsy (b ''email'')" and "\<not> falsy (b ''password'')"
      and "data (fst (users_or f1 (interpolate (b ''username'')) (interpolate (b ''email'')) s)) = None"
  shows "fst (register env now slt f1 (Some e) b s) = reply 500 (ErrorBody msg_server_error)"
  using assms
  by (simp add: register_def split_beta Let_def users_insert_def failed_def)

lemma post_homework_failure:
  assumes "role user = ''student''" and "\<not> falsy (b ''title'')" and "\<not> falsy (b ''content'')"
  shows "post_homework user now (Some e) b s
           = (reply 500 (ErrorBody (msg_submit_failed @ message e)), logged (Insert, ''homeworks'') s)"
  using assms
  by (simp add: post_homework_def homeworks_insert_def failed_def)

lemma get_homework_bindings_failure:
  "role user = ''parent'' \<Longrightarrow>
     fst (get_homework user (Some e) f2 s) = reply 500 (ErrorBody msg_cannot_fetch)"
  by (simp add: get_homework_def scope_def parent_child_select_def failed_def)

lemma get_homework_query_failure:
  "fst (scope user f1 s) = Inr q \<Longrightarrow>
     fst (get_homework user f1 (Some e) s) = reply 500 (ErrorBody msg_cannot_fetch)"
  by (cases "scope user f1 s")
    (simp add: get_homework_def run_query_def homeworks_select_def failed_def)

lemma bind_child_lookup_failure:
  assumes "role user = ''parent''" and "\<not> falsy (b ''childUsername'')"
      and "error (fst (users_eq_username f1 (the (b ''childUsername'')) s)) \<noteq> None"
  shows "fst (bind_child user f1 f2 b s) = reply 500 (ErrorBody msg_bind_failed)"
  using assms by (auto simp: bind_child_def split_beta split: option.splits)

lemma found_no_error:
  "data (fst (users_eq_username f a s)) = Some child \<Longrightarrow>
     error (fst (users_eq_username f a s)) = None"
  by (cases f; cases "filter (\<lambda>u. u_username u = a) (users s)" rule: maybeSingle.cases)
    (simp_all add: users_eq_username_def succeeded_def failed_def)

lemma bind_child_insert_failure:
  assumes "role user = ''parent''" and "\<not> falsy (b ''childUsername'')"
      and "data (fst (users_eq_username f1 (the (b ''childUsername'')) s)) = Some child"
      and "u_role child = ''student''"
  shows "fst (bind_child user f1 (Some e) b s)
           = (if code e = ''23505'' then reply 409 (ErrorBody msg_already_bound)
              else reply 500 (ErrorBody msg_bind_failed))"
    and "parent_child (snd (bind_child user f1 (Some e) b s)) = parent_child s"
  using assms found_no_error [OF assms(3)]
  by (simp_all add: bind_child_def split_beta parent_child_insert_def failed_def)

text \<open>
  Claim C4, as amended. A store call that resolves with an error is answered with status
  500 and never with a success, in these places: the lookup of the login; the insert of
  the registration, whatever the code of its error, a uniqueness violation included; the
  insert of the submission, which also leaves the homework table as it was; the lookup of
  the bindings and the query of the listing; the lookup of the binding. The insert of the
  binding is answered 409 with the already-bound message when the code of its error is
  \<^verbatim>\<open>23505\<close> and 500 otherwise, and inserts no row. What a failed duplicate-check
  lookup of the registration leads to is not part of this statement.
\<close>

theorem store_failures_surfaced:
  "(error (fst (users_or f1 (interpolate (b ''username'')) (interpolate (b ''username'')) s)) \<noteq> None
      \<longrightarrow> fst (login env now f1 b s) = reply 500 (ErrorBody msg_database_error))
   \<and> (\<not> falsy (b ''username'') \<longrightarrow> \<not> falsy (b ''email'') \<longrightarrow> \<not> falsy (b ''password'') \<longrightarrow>
       data (fst (users_or f1 (interpolate (b ''username'')) (interpolate (b ''email'')) s)) = None
      \<longrightarrow> fst (register env now slt f1 (Some e) b s) = reply 500 (ErrorBody msg_server_error))
   \<and> (role user = ''student'' \<longrightarrow> \<not> falsy (b ''title'') \<longrightarrow> \<not> falsy (b ''content'')
      \<longrightarrow> http_status (fst (post_homework user now (Some e) b s)) = 500
          \<and> homeworks (snd (post_homework user now (Some e) b s)) = homeworks s)
   \<and> (role user = ''parent''
      \<longrightarrow> fst (get_homework user (Some e) f2 s) = reply 500 (ErrorBody msg_cannot_fetch))
   \<and> (fst (scope user f1 s) = Inr q
      \<longrightarrow> fst (get_homework user f1 (Some e) s) = reply 500 (ErrorBody msg_cannot_fetch))
   \<and> (role user = ''parent'' \<longrightarrow> \<not> falsy (b ''childUsername'') \<longrightarrow>
       error (fst (users_eq_username f1 (the (b ''childUsername'')) s)) \<noteq> None
      \<longrightarrow> fst (bind_child user f1 f2 b s) = reply 500 (ErrorBody msg_bind_failed))
   \<and> (role user = ''parent'' \<longrightarrow> \<not> falsy (b ''childUsername'') \<longrightarrow>
       data (fst (users_eq_username f1 (the (b ''childUsername'')) s)) = Some child \<longrightarrow>
       u_role child = ''student''
      \<longrightarrow> fst (bind_child user f1 (Some e) b s)
            = (if code e = ''23505'' then reply 409 (ErrorBody msg_already_bound)
               else reply 500 (ErrorBody msg_bind_failed))
          \<and> parent_child (snd (bind_child user f1 (Some e) b s)) = parent_child s)"
proof (intro conjI impI)
  assume "role user = ''student''" "\<not> falsy (b ''title'')" "\<not> falsy (b ''content'')"
  then show "http_status (fst (post_homework user now (Some e) b s)) = 500"
    and "homeworks (snd (post_homework user now (Some e) b s)) = homeworks s"
    by (simp_all add: post_homework_failure reply_def)
qed (simp_all add: login_lookup_failure register_insert_failure get_homework_bindings_failure
       get_homework_query_failure bind_child_lookup_failure bind_child_insert_failure)

theorem store_failures_surfaced_witness:
  "fst (login Map.empty 20 (Some unreachable) sam_login school)
     = reply 500 (ErrorBody msg_database_error)
   \<and> fst (register Map.empty 20 ''salt'' None (Some duplicate_key) new_teacher school)
     = reply 500 (ErrorBody msg_server_error)
   \<and> http_status (fst (post_homework (caller 0 ''sam'' ''student'') 20 (Some refused) spoof school))
     = 500
   \<and> fst (get_homework (caller 3 ''pat'' ''parent'') (Some unreachable) None school)
     = reply 500 (ErrorBody msg_cannot_fetch)
   \<and> fst (get_homework (caller 2 ''tina'' ''teacher'') None (Some unreachable) school)
     = reply 500 (ErrorBody msg_cannot_fetch)
   \<and> fst (bind_child (caller 3 ''pat'' ''parent'') (Some unreachable) None
             [''childUsername'' \<mapsto> ''zed''] school)
     = reply 500 (ErrorBody msg_bind_failed)
   \<and> fst (bind_child (caller 3 ''pat'' ''parent'') None (Some duplicate_key)
             [''childUsername'' \<mapsto> ''zed''] school)
     = reply 409 (ErrorBody msg_already_bound)
   \<and> fst (bind_child (caller 3 ''pat'' ''parent'') None (Some unreachable)
             [''childUsername'' \<mapsto> ''zed''] school)
     = reply 500 (ErrorBody msg_bind_failed)"
proof -
  let ?zed = "[''childUsername'' \<mapsto> ''zed'']"
  have pat: "role (caller 3 ''pat'' ''parent'') = ''parent''"
    and sam: "role (caller 0 ''sam'' ''student'') = ''student''"
    by (simp_all add: caller_def)
  have a: "error (fst (users_or (Some unreachable) (interpolate (sam_login ''username''))
                         (interpolate (sam_login ''username'')) school)) \<noteq> None"
    by (simp add: users_or_plain users_or_failed plain_def nesting_def split_beta failed_def)
  have pres: "\<not> falsy (new_teacher ''username'')" "\<not> falsy (new_teacher ''email'')"
     "\<not> falsy (new_teacher ''password'')"
    by (simp_all add: new_teacher_def)
  have none: "data (fst (users_or None (interpolate (new_teacher ''username''))
                     (interpolate (new_teacher ''email'')) school)) = None"
    by (simp add: new_teacher_def users_or_plain users_or_failed plain_def nesting_def split_beta school_def student_row_def succeeded_def)
  have body: "\<not> falsy (spoof ''title'')" "\<not> falsy (spoof ''content'')"
    by (simp_all add: spoof_def)
  have q: "fst (scope (caller 2 ''tina'' ''teacher'') None school) = Inr Unfiltered"
    by (simp add: scope_def caller_def)
  have named: "\<not> falsy (?zed ''childUsername'')"
    by simp
  have lost: "error (fst (users_eq_username (Some unreachable) (the (?zed ''childUsername'')) school))
                \<noteq> None"
    by (simp add: users_eq_username_def failed_def)
  have found: "data (fst (users_eq_username None (the (?zed ''childUsername'')) school))
                 = Some (student_row 4 ''zed'' ''student'')"
    by (simp add: users_eq_username_def school_def student_row_def succeeded_def)
  have stu: "u_role (student_row 4 ''zed'' ''student'') = ''student''"
    by (simp add: student_row_def)
  note t = store_failures_surfaced
  from t [where b = sam_login, THEN conjunct1, rule_format, OF a]
  have c1: "fst (login Map.empty 20 (Some unreachable) sam_login school)
              = reply 500 (ErrorBody msg_database_error)" .
  from t [where b = new_teacher, THEN conjunct2, THEN conjunct1, rule_format, OF pres none]
  have c2: "fst (register Map.empty 20 ''salt'' None (Some duplicate_key) new_teacher school)
              = reply 500 (ErrorBody msg_server_error)" .
  from t [where b = spoof, THEN conjunct2, THEN conjunct2, THEN conjunct1, rule_format,
          OF sam body]
  have c3: "http_status (fst (post_homework (caller 0 ''sam'' ''student'') 20 (Some refused) spoof
                                 school)) = 500"
    by blast
  from t [THEN conjunct2, THEN conjunct2, THEN conjunct2, THEN conjunct1, rule_format, OF pat]
  have c4: "fst (get_homework (caller 3 ''pat'' ''parent'') (Some unreachable) None school)
              = reply 500 (ErrorBody msg_cannot_fetch)" .
  from t [THEN conjunct2, THEN conjunct2, THEN conjunct2, THEN conjunct2, THEN conjunct1,
          rule_format, OF q]
  have c5: "fst (get_homework (caller 2 ''tina'' ''teacher'') None (Some unreachable) school)
              = reply 500 (ErrorBody msg_cannot_fetch)" .
  from t [where b = ?zed, THEN conjunct2, THEN conjunct2, THEN conjunct2, THEN conjunct2,
          THEN conjunct2, THEN conjunct1, rule_format, OF pat named lost]
  have c6: "fst (bind_child (caller 3 ''pat'' ''parent'') (Some unreachable) None ?zed school)
              = reply 500 (ErrorBody msg_bind_failed)" .
  note last = t [where b = ?zed, THEN conjunct2, THEN conjunct2, THEN conjunct2, THEN conjunct2,
          THEN conjunct2, THEN conjunct2, rule_format, OF pat named found stu]
  from last [of duplicate_key]
  have c7: "fst (bind_child (caller 3 ''pat'' ''parent'') None (Some duplicate_key) ?zed school)
              = reply 409 (ErrorBody msg_already_bound)"
    by (simp add: duplicate_key_def)
  from last [of unreachable]
  have c8: "fst (bind_child (caller 3 ''pat'' ''parent'') None (Some unreachable) ?zed school)
              = reply 500 (ErrorBody msg_bind_failed)"
    by (simp add: unreachable_def)
  from c1 c2 c3 c4 c5 c6 c7 c8 show ?thesis
    by blast
qed

text \<open>
  Claim C4 as it was stated fails in the registration. A duplicate-check lookup that fails
  is read as no duplicate, since the handler takes only \<^verbatim>\<open>data\<close> from it: the
  registration goes on and answers 201. And an insert that fails with the uniqueness code
  \<^verbatim>\<open>23505\<close> is answered 500 with the server-error message, not 409.
\<close>

theorem register_store_failure_counterexample:
  "http_status (fst (register Map.empty 20 ''salt'' (Some unreachable) None new_teacher school)) = 201
   \<and> fst (register Map.empty 20 ''salt'' None (Some duplicate_key) new_teacher school)
       = reply 500 (ErrorBody msg_server_error)"
proof -
  have pres: "\<not> falsy (new_teacher ''username'')" "\<not> falsy (new_teacher ''email'')"
     "\<not> falsy (new_teacher ''password'')"
    by (simp_all add: new_teacher_def)
  have lost: "data (fst (users_or (Some unreachable) (interpolate (new_teacher ''username''))
                     (interpolate (new_teacher ''email'')) school)) = None"
    by (simp add: users_or_plain users_or_failed plain_def nesting_def split_beta failed_def)
  have none: "data (fst (users_or None (interpolate (new_teacher ''username''))
                     (interpolate (new_teacher ''email'')) school)) = None"
    by (simp add: new_teacher_def users_or_plain users_or_failed plain_def nesting_def split_beta school_def student_row_def succeeded_def)
  show ?thesis
    by (simp add: register_created [OF pres lost] register_insert_failure [OF pres none] reply_def)
qed

lemma bind_child_responses:
  "fst (bind_child user f1 f2 b s) = reply 500 (ErrorBody msg_bind_failed)
   \<or> http_status (fst (bind_child user f1 f2 b s)) \<in> {200, 400, 403, 404, 409}"
  by (simp add: bind_child_def split_beta reply_def split: option.splits)

text \<open>
  Claim C5, as amended. Every response with status 500 of the registration, the login,
  the listing and the binding carries one fixed message, whatever error the store gave.
  A response with status 500 of the submission comes from a failed insert and carries the
  fixed prefix followed by the \<^verbatim>\<open>message\<close> of that error.
\<close>

theorem store_error_messages:
  "(http_status (fst (register env now slt f1 f2 b s)) = 500
      \<longrightarrow> json (fst (register env now slt f1 f2 b s)) = ErrorBody msg_server_error)
   \<and> (http_status (fst (login env now f1 b s)) = 500
      \<longrightarrow> json (fst (login env now f1 b s)) = ErrorBody msg_database_error
          \<or> json (fst (login env now f1 b s)) = ErrorBody msg_server_error)
   \<and> (http_status (fst (get_homework user f1 f2 s)) = 500
      \<longrightarrow> json (fst (get_homework user f1 f2 s)) = ErrorBody msg_cannot_fetch)
   \<and> (http_status (fst (bind_child user f1 f2 b s)) = 500
      \<longrightarrow> json (fst (bind_child user f1 f2 b s)) = ErrorBody msg_bind_failed)
   \<and> (http_status (fst (post_homework user now f1 b s)) = 500
      \<longrightarrow> (\<exists>e. f1 = Some e
             \<and> json (fst (post_homework user now f1 b s))
                 = ErrorBody (msg_submit_failed @ message e)))"
proof (intro conjI impI)
  assume "http_status (fst (register env now slt f1 f2 b s)) = 500"
  then show "json (fst (register env now slt f1 f2 b s)) = ErrorBody msg_server_error"
    by (simp add: register_def split_beta Let_def reply_def split: if_splits option.splits)
next
  assume "http_status (fst (login env now f1 b s)) = 500"
  then show "json (fst (login env now f1 b s)) = ErrorBody msg_database_error
          \<or> json (fst (login env now f1 b s)) = ErrorBody msg_server_error"
    by (simp add: login_def split_beta reply_def split: if_splits option.splits)
next
  assume "http_status (fst (get_homework user f1 f2 s)) = 500"
  then show "json (fst (get_homework user f1 f2 s)) = ErrorBody msg_cannot_fetch"
    by (cases "scope user f1 s")
      (auto simp: get_homework_def scope_def run_query_def split_beta reply_def
         split: if_splits option.splits sum.splits)
next
  assume "http_status (fst (bind_child user f1 f2 b s)) = 500"
  with bind_child_responses [of user f1 f2 b s]
  show "json (fst (bind_child user f1 f2 b s)) = ErrorBody msg_bind_failed"
    by (auto simp: reply_def)
next
  assume "http_status (fst (post_homework user now f1 b s)) = 500"
  then show "\<exists>e. f1 = Some e
             \<and> json (fst (post_homework user now f1 b s))
                 = ErrorBody (msg_submit_failed @ message e)"
    by (cases f1)
      (simp_all add: post_homework_def homeworks_insert_def succeeded_def failed_def reply_def
         split: if_splits)
qed

theorem store_error_messages_witness:
  "json (fst (register Map.empty 20 ''salt'' None (Some duplicate_key) new_teacher school))
     = ErrorBody msg_server_error
   \<and> json (fst (login Map.empty 20 (Some unreachable) sam_login school))
     = ErrorBody msg_database_error
   \<and> json (fst (get_homework (caller 2 ''tina'' ''teacher'') None (Some unreachable) school))
     = ErrorBody msg_cannot_fetch
   \<and> json (fst (bind_child (caller 3 ''pat'' ''parent'') (Some unreachable) None
                   [''childUsername'' \<mapsto> ''zed''] school))
     = ErrorBody msg_bind_failed
   \<and> json (fst (post_homework (caller 0 ''sam'' ''student'') 20 (Some refused) spoof school))
     = ErrorBody (msg_submit_failed @ message refused)"
proof -
  have pres: "\<not> falsy (new_teacher ''username'')" "\<not> falsy (new_teacher ''email'')"
     "\<not> falsy (new_teacher ''password'')"
    by (simp_all add: new_teacher_def)
  have none: "data (fst (users_or None (interpolate (new_teacher ''username''))
                     (interpolate (new_teacher ''email'')) school)) = None"
    by (simp add: new_teacher_def users_or_plain users_or_failed plain_def nesting_def split_beta school_def student_row_def succeeded_def)
  have r: "http_status (fst (register Map.empty 20 ''salt'' None (Some duplicate_key) new_teacher
                               school)) = 500"
    by (simp add: register_insert_failure [OF pres none] reply_def)
  have l: "http_status (fst (login Map.empty 20 (Some unreachable) sam_login school)) = 500"
    by (simp add: login_lookup_failure users_or_plain users_or_failed plain_def nesting_def split_beta failed_def reply_def)
  have g: "http_status (fst (get_homework (caller 2 ''tina'' ''teacher'') None (Some unreachable)
                               school)) = 500"
    by (simp add: get_homework_query_failure [of _ _ _ Unfiltered] scope_def caller_def reply_def)
  have bd: "http_status (fst (bind_child (caller 3 ''pat'' ''parent'') (Some unreachable) None
                               [''childUsername'' \<mapsto> ''zed''] school)) = 500"
    by (simp add: bind_child_lookup_failure caller_def users_eq_username_def failed_def reply_def)
  have p: "http_status (fst (post_homework (caller 0 ''sam'' ''student'') 20 (Some refused) spoof
                               school)) = 500"
    by (simp add: post_homework_failure caller_def spoof_def reply_def)
  note t = store_error_messages
  from t [THEN conjunct1, rule_format, OF r]
  have c1: "json (fst (register Map.empty 20 ''salt'' None (Some duplicate_key) new_teacher school))
              = ErrorBody msg_server_error" .
  from t [THEN conjunct2, THEN conjunct1, rule_format, OF l]
  have "json (fst (login Map.empty 20 (Some unreachable) sam_login school))
          = ErrorBody msg_database_error
        \<or> json (fst (login Map.empty 20 (Some unreachable) sam_login school))
          = ErrorBody msg_server_error" .
  then have c2: "json (fst (login Map.empty 20 (Some unreachable) sam_login school))
                   = ErrorBody msg_database_error"
    by (simp add: login_lookup_failure users_or_plain users_or_failed plain_def nesting_def split_beta failed_def reply_def)
  from t [THEN conjunct2, THEN conjunct2, THEN conjunct1, rule_format, OF g]
  have c3: "json (fst (get_homework (caller 2 ''tina'' ''teacher'') None (Some unreachable) school))
              = ErrorBody msg_cannot_fetch" .
  from t [THEN conjunct2, THEN conjunct2, THEN conjunct2, THEN conjunct1, rule_format, OF bd]
  have c4: "json (fst (bind_child (caller 3 ''pat'' ''parent'') (Some unreachable) None
                         [''childUsername'' \<mapsto> ''zed''] school))
              = ErrorBody msg_bind_failed" .
  from t [THEN conjunct2, THEN conjunct2, THEN conjunct2, THEN conjunct2, rule_format, OF p]
  have c5: "json (fst (post_homework (caller 0 ''sam'' ''student'') 20 (Some refused) spoof school))
              = ErrorBody (msg_submit_failed @ message refused)"
    by auto
  from c1 c2 c3 c4 c5 show ?thesis
    by blast
qed

text \<open>
  Claim C5 as it was stated fails in the submission: the text of the store's error is
  part of the message sent to the caller.
\<close>

theorem post_homework_message_counterexample:
  "post_homework (caller 0 ''sam'' ''student'') 20 (Some refused) spoof school
     = (reply 500 (ErrorBody (msg_submit_failed @ ''permission denied for table homeworks'')),
        logged (Insert, ''homeworks'') school)"
  by (simp add: post_homework_failure caller_def spoof_def refused_def)

section \<open>Login\<close>

lemma login_found:
  assumes "fst (users_or f1 (interpolate (b ''username'')) (interpolate (b ''username'')) s)
             = succeeded (Some u)"
      and "b ''password'' = Some p"
  shows "fst (login env now f1 b s)
           = (if bcrypt_compare p (u_password_hash u)
              then reply 200
                     (AuthBody msg_login_ok
                        (jwt_sign (public_view u) (JWT_SECRET env) JWT_EXPIRES_IN now)
                        (public_view u))
              else reply 401 (ErrorBody msg_bad_credentials))"
  using assms by (simp add: login_def split_beta succeeded_def)

lemma login_not_found:
  assumes "fst (users_or f1 (interpolate (b ''username'')) (interpolate (b ''username'')) s)
             = succeeded None"
  shows "fst (login env now f1 b s) = reply 401 (ErrorBody msg_bad_credentials)"
  using assms by (simp add: login_def split_beta succeeded_def)

text \<open>
  Claim C3, as amended. Take one login that sends a password, a text, and whose lookup
  resolves to one stored identity, the password not verifying against the digest of that
  identity; and another login whose lookup resolves to no identity. Both get the same
  response, status 401 with the one bad-credentials message, in any environment and at any
  time. What a login without a password text gets is not part of this statement.
\<close>

theorem login_failures_indistinguishable:
  assumes "fst (users_or f1 (interpolate (b ''username'')) (interpolate (b ''username'')) s)
             = succeeded (Some u)"
      and "b ''password'' = Some p"
      and "\<not> bcrypt_compare p (u_password_hash u)"
      and "fst (users_or f1' (interpolate (b' ''username'')) (interpolate (b' ''username'')) s')
             = succeeded None"
  shows "fst (login env now f1 b s) = reply 401 (ErrorBody msg_bad_credentials)
         \<and> fst (login env' now' f1' b' s') = fst (login env now f1 b s)"
  using assms by (simp add: login_found login_not_found)

theorem login_failures_indistinguishable_witness:
  "fst (users_or None ''sam'' ''sam'' school) = succeeded (Some (student_row 0 ''sam'' ''student''))
   \<and> fst (users_or None ''nobody'' ''nobody'' school) = succeeded None
   \<and> fst (login Map.empty 20 None [''username'' \<mapsto> ''sam'', ''password'' \<mapsto> ''guess''] school)
       = reply 401 (ErrorBody msg_bad_credentials)
   \<and> fst (login Map.empty 21 None [''username'' \<mapsto> ''nobody'', ''password'' \<mapsto> ''guess''] school)
       = fst (login Map.empty 20 None [''username'' \<mapsto> ''sam'', ''password'' \<mapsto> ''guess''] school)"
proof -
  have one: "fst (users_or None ''sam'' ''sam'' school)
               = succeeded (Some (student_row 0 ''sam'' ''student''))"
    by (simp add: users_or_plain plain_def nesting_def school_def student_row_def)
  have none: "fst (users_or None ''nobody'' ''nobody'' school) = succeeded None"
    by (simp add: users_or_plain plain_def nesting_def school_def student_row_def)
  have wrong: "\<not> bcrypt_compare ''guess'' (u_password_hash (student_row 0 ''sam'' ''student''))"
    by (simp add: bcrypt_compare_def student_row_def)
  from login_failures_indistinguishable
         [where b = "[''username'' \<mapsto> ''sam'', ''password'' \<mapsto> ''guess'']"
            and b' = "[''username'' \<mapsto> ''nobody'', ''password'' \<mapsto> ''guess'']"
            and s = school and s' = school and ?f1.0 = None and f1' = None
            and u = "student_row 0 ''sam'' ''student''" and p = "''guess''"
            and env = Map.empty and env' = Map.empty and now = 20 and now' = 21]
       one none wrong
  show ?thesis by simp
qed

text \<open>A login with no \<^verbatim>\<open>password\<close> field at all is answered differently when
  the lookup finds an identity, since \<^verbatim>\<open>bcrypt.compare\<close> rejects the absent
  value.\<close>

lemma login_absent_password:
  assumes "fst (users_or f1 (interpolate (b ''username'')) (interpolate (b ''username'')) s)
             = succeeded (Some u)"
      and "b ''password'' = None"
  shows "fst (login env now f1 b s) = reply 500 (ErrorBody msg_server_error)"
  using assms by (simp add: login_def split_beta succeeded_def)

text \<open>
  Claim C3 as it was stated fails in two ways. A login for the stored name
  \<^verbatim>\<open>sam\<close> that sends no password is answered 500, the same login for an unknown
  name 401. And in \<open>school_ned\<close> the name \<^verbatim>\<open>ned\<close> is the username of one
  identity and the email of another: a login for it with a wrong password is answered 500,
  since \<^verbatim>\<open>maybeSingle\<close> makes the two rows an error, and for an unknown name 401.
\<close>

theorem login_distinguishes_counterexample:
  "fst (login Map.empty 20 None [''username'' \<mapsto> ''sam''] school)
     = reply 500 (ErrorBody msg_server_error)
   \<and> fst (login Map.empty 20 None [''username'' \<mapsto> ''nobody''] school)
     = reply 401 (ErrorBody msg_bad_credentials)
   \<and> map u_username (filter (\<lambda>u. u_username u = ''ned'' \<or> u_email u = ''ned'') (users school_ned))
     = [''ann'', ''ned'']
   \<and> fst (login Map.empty 21 None [''username'' \<mapsto> ''ned'', ''password'' \<mapsto> ''guess''] school_ned)
     = reply 500 (ErrorBody msg_database_error)
   \<and> fst (login Map.empty 21 None [''username'' \<mapsto> ''nobody'', ''password'' \<mapsto> ''guess'']
             school_ned)
     = reply 401 (ErrorBody msg_bad_credentials)"
proof -
  have sam: "fst (users_or None ''sam'' ''sam'' school)
               = succeeded (Some (student_row 0 ''sam'' ''student''))"
    by (simp add: users_or_plain plain_def nesting_def school_def student_row_def)
  have nobody: "fst (users_or None ''nobody'' ''nobody'' school) = succeeded None"
    by (simp add: users_or_plain plain_def nesting_def school_def student_row_def)
  have two: "filter (\<lambda>u. u_username u = ''ned'' \<or> u_email u = ''ned'') (users school_ned)
               = [\<lparr>u_id = 6, u_username = ''ann'', u_email = ''ned'',
                   u_password_hash = Bcrypt 10 ''salt'' ''pw-ann'', u_role = ''student'',
                   u_is_verified = True\<rparr>,
                  \<lparr>u_id = 7, u_username = ''ned'', u_email = ''ned@school.example'',
                   u_password_hash = Bcrypt 10 ''salt'' ''pw-ned'', u_role = ''teacher'',
                   u_is_verified = True\<rparr>]"
    by (simp add: school_ned_users school_def student_row_def)
  then have ned: "fst (users_or None ''ned'' ''ned'' school_ned) = failed PGRST116"
    by (simp add: users_or_plain plain_def nesting_def)
  have gone: "fst (users_or None ''nobody'' ''nobody'' school_ned) = succeeded None"
    by (simp add: users_or_plain plain_def nesting_def school_ned_users school_def student_row_def)
  have "fst (login Map.empty 20 None [''username'' \<mapsto> ''sam''] school)
          = reply 500 (ErrorBody msg_server_error)"
    by (rule login_absent_password [where u = "student_row 0 ''sam'' ''student''"])
      (simp_all add: sam)
  moreover have "fst (login Map.empty 20 None [''username'' \<mapsto> ''nobody''] school)
          = reply 401 (ErrorBody msg_bad_credentials)"
    by (rule login_not_found) (simp add: nobody)
  moreover have "fst (login Map.empty 21 None [''username'' \<mapsto> ''ned'', ''password'' \<mapsto> ''guess'']
                        school_ned)
          = reply 500 (ErrorBody msg_database_error)"
    by (rule login_lookup_failure) (simp add: ned failed_def)
  moreover have "fst (login Map.empty 21 None [''username'' \<mapsto> ''nobody'', ''password'' \<mapsto> ''guess'']
                        school_ned)
          = reply 401 (ErrorBody msg_bad_credentials)"
    by (rule login_not_found) (simp add: gone)
  ultimately show ?thesis
    using two by simp
qed

section \<open>Register, then log in\<close>

text \<open>
  Claim C8, as amended. Take a registration that names a plain username, a plain email and
  a password, where no stored identity has either name as its username or as its email,
  and whose insert the store accepts. It answers 201 and adds one row. A login that
  follows it with the same password and with the username or the email as its name, the
  store answering, gets 200 with a token whose role is the role of that row (the role of
  the body, or \<^verbatim>\<open>student\<close>), and the gate accepts that token until it expires.
  What a registration with a name that is not plain leads to is not part of this
  statement.
\<close>

theorem register_then_login:
  assumes "b ''username'' = Some n" and "b ''email'' = Some e" and "\<not> falsy (b ''password'')"
      and "plain n" and "plain e"
      and "\<forall>u \<in> set (users s). u_username u \<noteq> n \<and> u_username u \<noteq> e
                                 \<and> u_email u \<noteq> n \<and> u_email u \<noteq> e"
      and "b' ''username'' = Some n \<or> b' ''username'' = Some e"
      and "b' ''password'' = b ''password''"
  shows "http_status (fst (register env now slt f1 None b s)) = 201
         \<and> users (snd (register env now slt f1 None b s)) = users s @ [new_row slt b s]
         \<and> (\<exists>tok. fst (login env now' None b' (snd (register env now slt f1 None b s)))
                     = reply 200 (AuthBody msg_login_ok tok (public_view (new_row slt b s)))
                \<and> role (payload tok) = u_role (new_row slt b s)
                \<and> (\<forall>t. t < now' + JWT_EXPIRES_IN \<longrightarrow>
                      authenticateToken env t (Some [Text ''Bearer'', Compact tok])
                        = Inr (payload tok)))"
proof -
  let ?row = "new_row slt b s"
  let ?s' = "snd (register env now slt f1 None b s)"
  let ?tok = "jwt_sign (public_view ?row) (JWT_SECRET env) JWT_EXPIRES_IN now'"
  from assms(3) obtain p where p: "b ''password'' = Some p"
    by (cases "b ''password''") simp_all
  from assms(4,5) have ne: "n \<noteq> []" "e \<noteq> []"
    by (simp_all add: plain_def)
  with assms(1-3) have pres: "\<not> falsy (b ''username'')" "\<not> falsy (b ''email'')"
      "\<not> falsy (b ''password'')"
    by simp_all
  have "data (fst (users_or f1 (interpolate (b ''username'')) (interpolate (b ''email'')) s))
          = None"
    using assms(1,2,4-6) by (intro lookup_none) simp
  note reg = register_created [OF pres this, of env now slt]
  have created: "http_status (fst (register env now slt f1 None b s)) = 201"
    and grown: "users ?s' = users s @ [?row]"
    by (simp_all add: reg reply_def)
  have row: "u_username ?row = n" "u_email ?row = e"
      "u_password_hash ?row = Bcrypt 10 slt p"
    by (simp_all add: new_row_def assms(1,2) p)
  from assms(7) obtain m where m: "b' ''username'' = Some m" "m = n \<or> m = e"
    by blast
  with assms(4,5) have "plain m"
    by blast
  moreover from assms(6) m(2) row
  have "filter (\<lambda>u. u_username u = m \<or> u_email u = m) (users ?s') = [?row]"
    unfolding grown by (auto simp: filter_empty_conv)
  ultimately have "fst (users_or None m m ?s') = succeeded (Some ?row)"
    by (simp add: users_or_plain)
  then have "fst (login env now' None b' ?s')
               = reply 200 (AuthBody msg_login_ok ?tok (public_view ?row))"
    using login_found [of None b' ?s' ?row p env now'] m(1) assms(8) p row(3)
    by (simp add: bcrypt_compare_def)
  moreover have "role (payload ?tok) = u_role ?row"
    by (simp add: jwt_sign_def public_view_def)
  moreover have "\<forall>t. t < now' + JWT_EXPIRES_IN \<longrightarrow>
                   authenticateToken env t (Some [Text ''Bearer'', Compact ?tok]) = Inr (payload ?tok)"
    by (simp add: authenticateToken_def jwt_sign_def)
  ultimately show ?thesis
    using created grown by blast
qed

theorem register_then_login_witness:
  "http_status (fst (register Map.empty 20 ''salt'' None None new_teacher school)) = 201
   \<and> (\<exists>tok. fst (login Map.empty 21 None ned_login
                    (snd (register Map.empty 20 ''salt'' None None new_teacher school)))
              = reply 200 (AuthBody msg_login_ok tok
                             \<lparr>userId = 6, username = ''ned'', role = ''teacher''\<rparr>)
         \<and> role (payload tok) = ''teacher''
         \<and> authenticateToken Map.empty 22 (Some [Text ''Bearer'', Compact tok])
             = Inr (payload tok))
   \<and> (\<exists>tok. fst (login Map.empty 21 None ned_email_login
                    (snd (register Map.empty 20 ''salt'' None None new_teacher school)))
              = reply 200 (AuthBody msg_login_ok tok
                             \<lparr>userId = 6, username = ''ned'', role = ''teacher''\<rparr>)
         \<and> role (payload tok) = ''teacher''
         \<and> authenticateToken Map.empty 22 (Some [Text ''Bearer'', Compact tok])
             = Inr (payload tok))"
proof -
  have body: "new_teacher ''username'' = Some ''ned''"
    "new_teacher ''email'' = Some ''ned@school.example''"
    "\<not> falsy (new_teacher ''password'')"
    by (simp_all add: new_teacher_def)
  have pl: "plain ''ned''" "plain ''ned@school.example''"
    by (simp_all add: plain_def nesting_def)
  have fresh: "\<forall>u \<in> set (users school). u_username u \<noteq> ''ned''
                 \<and> u_username u \<noteq> ''ned@school.example''
                 \<and> u_email u \<noteq> ''ned'' \<and> u_email u \<noteq> ''ned@school.example''"
    by (simp add: school_def student_row_def)
  have by_name: "ned_login ''username'' = Some ''ned''
                 \<or> ned_login ''username'' = Some ''ned@school.example''"
    and by_mail: "ned_email_login ''username'' = Some ''ned''
                  \<or> ned_email_login ''username'' = Some ''ned@school.example''"
    and same: "ned_login ''password'' = new_teacher ''password''"
      "ned_email_login ''password'' = new_teacher ''password''"
    by (simp_all add: ned_login_def ned_email_login_def new_teacher_def)
  have row: "public_view (new_row ''salt'' new_teacher school)
               = \<lparr>userId = 6, username = ''ned'', role = ''teacher''\<rparr>"
    "u_role (new_row ''salt'' new_teacher school) = ''teacher''"
    by (simp_all add: public_view_def new_row_def new_teacher_def js_or_def school_def)
  have soon: "(22::nat) < 21 + JWT_EXPIRES_IN"
    by (simp add: JWT_EXPIRES_IN_def)
  note t = register_then_login [OF body pl fresh, of _ Map.empty 20 "''salt''" None 21]
  from t [OF by_name same(1)]
  obtain tok where "http_status (fst (register Map.empty 20 ''salt'' None None new_teacher school)) = 201"
    and "fst (login Map.empty 21 None ned_login
                (snd (register Map.empty 20 ''salt'' None None new_teacher school)))
           = reply 200 (AuthBody msg_login_ok tok (public_view (new_row ''salt'' new_teacher school)))"
    and "role (payload tok) = u_role (new_row ''salt'' new_teacher school)"
    and "\<forall>t. t < 21 + JWT_EXPIRES_IN \<longrightarrow>
           authenticateToken Map.empty t (Some [Text ''Bearer'', Compact tok]) = Inr (payload tok)"
    by blast
  with row soon have first: "http_status (fst (register Map.empty 20 ''salt'' None None new_teacher school)) = 201
   \<and> (\<exists>tok. fst (login Map.empty 21 None ned_login
                    (snd (register Map.empty 20 ''salt'' None None new_teacher school)))
              = reply 200 (AuthBody msg_login_ok tok
                             \<lparr>userId = 6, username = ''ned'', role = ''teacher''\<rparr>)
         \<and> role (payload tok) = ''teacher''
         \<and> authenticateToken Map.empty 22 (Some [Text ''Bearer'', Compact tok])
             = Inr (payload tok))"
    by auto
  from t [OF by_mail same(2)]
  obtain tok' where "fst (login Map.empty 21 None ned_email_login
                (snd (register Map.empty 20 ''salt'' None None new_teacher school)))
           = reply 200 (AuthBody msg_login_ok tok' (public_view (new_row ''salt'' new_teacher school)))"
    and "role (payload tok') = u_role (new_row ''salt'' new_teacher school)"
    and "\<forall>t. t < 21 + JWT_EXPIRES_IN \<longrightarrow>
           authenticateToken Map.empty t (Some [Text ''Bearer'', Compact tok']) = Inr (payload tok')"
    by blast
  with row soon have "\<exists>tok. fst (login Map.empty 21 None ned_email_login
                    (snd (register Map.empty 20 ''salt'' None None new_teacher school)))
              = reply 200 (AuthBody msg_login_ok tok
                             \<lparr>userId = 6, username = ''ned'', role = ''teacher''\<rparr>)
         \<and> role (payload tok) = ''teacher''
         \<and> authenticateToken Map.empty 22 (Some [Text ''Bearer'', Compact tok])
             = Inr (payload tok)"
    by auto
  with first show ?thesis
    by blast
qed

text \<open>
  Claim C8 as it was stated fails in three ways. In \<open>school_ann\<close> nobody has the
  username \<^verbatim>\<open>ned\<close> and nobody the email \<^verbatim>\<open>ned@school.example\<close>, so the
  registration succeeds; but \<^verbatim>\<open>ned\<close> is the email of another identity, the login
  looks it up as username or email, finds two rows, and \<^verbatim>\<open>maybeSingle\<close> makes
  that an error: the login answers 500. In \<open>school_bob\<close> the same happens to the
  login by email, since \<^verbatim>\<open>ned@school.example\<close> is the username of another
  identity. And a username with a comma in it is read by the store as more conditions than
  one: in \<open>school\<close> nobody has the username or the email of \<open>spliced_body\<close>, yet
  its duplicate check finds the teacher and the registration answers 409.
\<close>

theorem register_login_counterexample:
  "map u_username (users school_ann) = [''sam'', ''sue'', ''tina'', ''pat'', ''zed'', ''quin'', ''ann'']
   \<and> map u_email (users school_ann)
       = [''sam@school.example'', ''sue@school.example'', ''tina@school.example'',
          ''pat@school.example'', ''zed@school.example'', ''quin@school.example'', ''ned'']
   \<and> new_teacher ''username'' = Some ''ned''
   \<and> new_teacher ''email'' = Some ''ned@school.example''
   \<and> http_status (fst (register Map.empty 20 ''salt'' None None new_teacher school_ann)) = 201
   \<and> fst (login Map.empty 21 None ned_login
             (snd (register Map.empty 20 ''salt'' None None new_teacher school_ann)))
       = reply 500 (ErrorBody msg_database_error)
   \<and> map u_username (users school_bob)
       = [''sam'', ''sue'', ''tina'', ''pat'', ''zed'', ''quin'', ''ned@school.example'']
   \<and> map u_email (users school_bob)
       = [''sam@school.example'', ''sue@school.example'', ''tina@school.example'',
          ''pat@school.example'', ''zed@school.example'', ''quin@school.example'',
          ''bob@school.example'']
   \<and> http_status (fst (register Map.empty 20 ''salt'' None None new_teacher school_bob)) = 201
   \<and> fst (login Map.empty 21 None ned_email_login
             (snd (register Map.empty 20 ''salt'' None None new_teacher school_bob)))
       = reply 500 (ErrorBody msg_database_error)
   \<and> map u_username (users school) = [''sam'', ''sue'', ''tina'', ''pat'', ''zed'', ''quin'']
   \<and> map u_email (users school)
       = [''sam@school.example'', ''sue@school.example'', ''tina@school.example'',
          ''pat@school.example'', ''zed@school.example'', ''quin@school.example'']
   \<and> spliced_body ''username'' = Some ''x,role.eq.teacher''
   \<and> spliced_body ''email'' = Some ''x@school.example''
   \<and> fst (register Map.empty 20 ''salt'' None None spliced_body school)
       = reply 409 (ErrorBody msg_already_registered)"
proof -
  have ann: "register Map.empty 20 ''salt'' None None new_teacher school_ann
               = (reply 201
                    (AuthBody msg_register_ok
                       (jwt_sign (public_view (new_row ''salt'' new_teacher school_ann))
                          (JWT_SECRET Map.empty) JWT_EXPIRES_IN 20)
                       (public_view (new_row ''salt'' new_teacher school_ann))),
                  logged (Insert, ''users'')
                    (logged (Select, ''users'') school_ann
                       \<lparr>users := users school_ann @ [new_row ''salt'' new_teacher school_ann],
                        users_seq := Suc (users_seq school_ann)\<rparr>))"
    by (rule register_ned_elsewhere [OF school_ann_users]) simp_all
  have bob: "register Map.empty 20 ''salt'' None None new_teacher school_bob
               = (reply 201
                    (AuthBody msg_register_ok
                       (jwt_sign (public_view (new_row ''salt'' new_teacher school_bob))
                          (JWT_SECRET Map.empty) JWT_EXPIRES_IN 20)
                       (public_view (new_row ''salt'' new_teacher school_bob))),
                  logged (Insert, ''users'')
                    (logged (Select, ''users'') school_bob
                       \<lparr>users := users school_bob @ [new_row ''salt'' new_teacher school_bob],
                        users_seq := Suc (users_seq school_bob)\<rparr>))"
    by (rule register_ned_elsewhere [OF school_bob_users]) simp_all
  have two_ann: "fst (users_or None ''ned'' ''ned''
                        (snd (register Map.empty 20 ''salt'' None None new_teacher school_ann)))
                   = failed PGRST116"
    unfolding ann
    by (simp add: users_or_plain plain_def nesting_def school_ann_users school_def
          student_row_def new_row_def new_teacher_def)
  have two_bob: "fst (users_or None ''ned@school.example'' ''ned@school.example''
                        (snd (register Map.empty 20 ''salt'' None None new_teacher school_bob)))
                   = failed PGRST116"
    unfolding bob
    by (simp add: users_or_plain plain_def nesting_def school_bob_users school_def
          student_row_def new_row_def new_teacher_def)
  have a: "fst (login Map.empty 21 None ned_login
                  (snd (register Map.empty 20 ''salt'' None None new_teacher school_ann)))
             = reply 500 (ErrorBody msg_database_error)"
    by (rule login_lookup_failure) (simp add: ned_login_def two_ann failed_def)
  have b: "fst (login Map.empty 21 None ned_email_login
                  (snd (register Map.empty 20 ''salt'' None None new_teacher school_bob)))
             = reply 500 (ErrorBody msg_database_error)"
    by (rule login_lookup_failure) (simp add: ned_email_login_def two_bob failed_def)
  have c: "fst (register Map.empty 20 ''salt'' None None spliced_body school)
             = reply 409 (ErrorBody msg_already_registered)"
    using spliced by (simp add: register_def spliced_body_def split_beta succeeded_def)
  have a201: "http_status (fst (register Map.empty 20 ''salt'' None None new_teacher school_ann))
                = 201"
    and b201: "http_status (fst (register Map.empty 20 ''salt'' None None new_teacher school_bob))
                = 201"
    by (simp_all add: ann bob reply_def)
  have names: "map u_username (users school_ann)
                 = [''sam'', ''sue'', ''tina'', ''pat'', ''zed'', ''quin'', ''ann'']"
    "map u_email (users school_ann)
       = [''sam@school.example'', ''sue@school.example'', ''tina@school.example'',
          ''pat@school.example'', ''zed@school.example'', ''quin@school.example'', ''ned'']"
    "map u_username (users school_bob)
       = [''sam'', ''sue'', ''tina'', ''pat'', ''zed'', ''quin'', ''ned@school.example'']"
    "map u_email (users school_bob)
       = [''sam@school.example'', ''sue@school.example'', ''tina@school.example'',
          ''pat@school.example'', ''zed@school.example'', ''quin@school.example'',
          ''bob@school.example'']"
    "map u_username (users school) = [''sam'', ''sue'', ''tina'', ''pat'', ''zed'', ''quin'']"
    "map u_email (users school)
       = [''sam@school.example'', ''sue@school.example'', ''tina@school.example'',
          ''pat@school.example'', ''zed@school.example'', ''quin@school.example'']"
    by (simp_all add: school_ann_users school_bob_users school_def student_row_def)
  have bodies: "new_teacher ''username'' = Some ''ned''"
    "new_teacher ''email'' = Some ''ned@school.example''"
    "spliced_body ''username'' = Some ''x,role.eq.teacher''"
    "spliced_body ''email'' = Some ''x@school.example''"
    by (simp_all add: new_teacher_def spliced_body_def)
  from names bodies a201 a b201 b c show ?thesis
    by blast
qed

section \<open>The signing key\<close>

lemma register_ned:
  "fst (register Map.empty 20 ''salt'' None None new_teacher school)
     = reply 201 (AuthBody msg_register_ok
         (Jwt \<lparr>userId = 6, username = ''ned'', role = ''teacher'', iat = 20, exp = 20 + JWT_EXPIRES_IN\<rparr>
            ''default-secret-key'')
         \<lparr>userId = 6, username = ''ned'', role = ''teacher''\<rparr>)"
proof -
  have none: "data (fst (users_or None (interpolate (new_teacher ''username''))
                     (interpolate (new_teacher ''email'')) school)) = None"
    by (simp add: new_teacher_def users_or_plain users_or_failed plain_def nesting_def split_beta school_def student_row_def succeeded_def)
  have pres: "\<not> falsy (new_teacher ''username'')" "\<not> falsy (new_teacher ''email'')"
     "\<not> falsy (new_teacher ''password'')"
    by (simp_all add: new_teacher_def)
  have seq: "users_seq school = 6" by (simp add: school_def)
  show ?thesis
    unfolding register_created [OF pres none]
    by (simp add: new_teacher_def new_row_def public_view_def jwt_sign_def JWT_SECRET_def
         js_or_def seq)
qed

lemma login_sam:
  "fst (login Map.empty 20 None sam_login school)
     = reply 200 (AuthBody msg_login_ok
         (Jwt \<lparr>userId = 0, username = ''sam'', role = ''student'', iat = 20, exp = 20 + JWT_EXPIRES_IN\<rparr>
            ''default-secret-key'')
         \<lparr>userId = 0, username = ''sam'', role = ''student''\<rparr>)"
  by (simp add: login_def sam_login_def users_or_plain users_or_failed plain_def nesting_def split_beta school_def student_row_def
        succeeded_def bcrypt_compare_def public_view_def jwt_sign_def JWT_SECRET_def)

text \<open>
  Claim C10. The token that registration or login issues is signed with
  \<^verbatim>\<open>JWT_SECRET\<close>, and the gate accepts a bearer token exactly when it was signed with
  that same \<^verbatim>\<open>JWT_SECRET\<close> and has not expired, handing on its payload. When the
  environment has no \<^verbatim>\<open>JWT_SECRET\<close>, the key is the literal
  \<^verbatim>\<open>default-secret-key\<close>, and the gate then accepts any unexpired payload at all
  that somebody signed with that literal.
\<close>

theorem signing_key_shared:
  "(json (fst (register env now slt f1 f2 b s)) = AuthBody m tok v \<longrightarrow> signed_with tok = JWT_SECRET env)
   \<and> (json (fst (login env now f1 b s)) = AuthBody m tok v \<longrightarrow> signed_with tok = JWT_SECRET env)
   \<and> (authenticateToken env now' (Some [Text ''Bearer'', Compact tok']) = Inr c
        \<longleftrightarrow> signed_with tok' = JWT_SECRET env \<and> now' < exp (payload tok') \<and> c = payload tok')
   \<and> (env ''JWT_SECRET'' = None \<longrightarrow>
        JWT_SECRET env = ''default-secret-key''
        \<and> (now' < exp forged \<longrightarrow>
             authenticateToken env now' (Some [Text ''Bearer'', Compact (Jwt forged ''default-secret-key'')])
               = Inr forged))"
proof (intro conjI impI)
  assume "json (fst (register env now slt f1 f2 b s)) = AuthBody m tok v"
  then show "signed_with tok = JWT_SECRET env"
    by (auto simp: register_def reply_def jwt_sign_def Let_def split: if_splits option.splits prod.splits)
next
  assume "json (fst (login env now f1 b s)) = AuthBody m tok v"
  then show "signed_with tok = JWT_SECRET env"
    by (auto simp: login_def reply_def jwt_sign_def Let_def split: if_splits option.splits prod.splits)
next
  show "authenticateToken env now' (Some [Text ''Bearer'', Compact tok']) = Inr c
        \<longleftrightarrow> signed_with tok' = JWT_SECRET env \<and> now' < exp (payload tok') \<and> c = payload tok'"
    by (cases tok') (auto simp: authenticateToken_def)
next
  assume "env ''JWT_SECRET'' = None"
  then show "JWT_SECRET env = ''default-secret-key''"
    by (simp add: JWT_SECRET_def)
next
  assume "env ''JWT_SECRET'' = None" and "now' < exp forged"
  then show "authenticateToken env now' (Some [Text ''Bearer'', Compact (Jwt forged ''default-secret-key'')])
               = Inr forged"
    by (simp add: authenticateToken_def JWT_SECRET_def)
qed

theorem signing_key_shared_witness:
  "json (fst (register Map.empty 20 ''salt'' None None new_teacher school))
      = AuthBody msg_register_ok
         (Jwt \<lparr>userId = 6, username = ''ned'', role = ''teacher'', iat = 20, exp = 20 + JWT_EXPIRES_IN\<rparr>
            ''default-secret-key'')
         \<lparr>userId = 6, username = ''ned'', role = ''teacher''\<rparr>
   \<and> json (fst (login Map.empty 20 None sam_login school))
      = AuthBody msg_login_ok
         (Jwt \<lparr>userId = 0, username = ''sam'', role = ''student'', iat = 20, exp = 20 + JWT_EXPIRES_IN\<rparr>
            ''default-secret-key'')
         \<lparr>userId = 0, username = ''sam'', role = ''student''\<rparr>
   \<and> JWT_SECRET Map.empty = ''default-secret-key''
   \<and> authenticateToken Map.empty 30
        (Some [Text ''Bearer'',
               Compact (Jwt \<lparr>userId = 0, username = ''sam'', role = ''student'', iat = 20,
                              exp = 20 + JWT_EXPIRES_IN\<rparr> ''default-secret-key'')])
      = Inr \<lparr>userId = 0, username = ''sam'', role = ''student'', iat = 20, exp = 20 + JWT_EXPIRES_IN\<rparr>
   \<and> authenticateToken Map.empty 30
        (Some [Text ''Bearer'', Compact (Jwt (caller 99 ''mallory'' ''teacher'') ''default-secret-key'')])
      = Inr (caller 99 ''mallory'' ''teacher'')"
proof -
  let ?sam = "\<lparr>userId = 0, username = ''sam'', role = ''student'', iat = 20,
               exp = 20 + JWT_EXPIRES_IN\<rparr>"
  let ?ned = "\<lparr>userId = 6, username = ''ned'', role = ''teacher'', iat = 20,
               exp = 20 + JWT_EXPIRES_IN\<rparr>"
  note shared = signing_key_shared
    [where env = Map.empty and now = 20 and slt = "''salt''" and ?f1.0 = None and ?f2.0 = None
       and s = school and now' = 30 and forged = "caller 99 ''mallory'' ''teacher''"
       and tok' = "Jwt ?sam ''default-secret-key''" and c = ?sam]
  have unset: "(Map.empty :: env) ''JWT_SECRET'' = None"
    by simp
  have fresh: "30 < exp (caller 99 ''mallory'' ''teacher'')"
    by (simp add: caller_def JWT_EXPIRES_IN_def)
  have ned: "json (fst (register Map.empty 20 ''salt'' None None new_teacher school))
               = AuthBody msg_register_ok (Jwt ?ned ''default-secret-key'')
                   \<lparr>userId = 6, username = ''ned'', role = ''teacher''\<rparr>"
    by (simp add: register_ned reply_def)
  have sam: "json (fst (login Map.empty 20 None sam_login school))
               = AuthBody msg_login_ok (Jwt ?sam ''default-secret-key'')
                   \<lparr>userId = 0, username = ''sam'', role = ''student''\<rparr>"
    by (simp add: login_sam reply_def)
  from shared [where b = new_teacher] ned
  have key_ned: "signed_with (Jwt ?ned ''default-secret-key'') = JWT_SECRET Map.empty"
    by blast
  from shared [where b = sam_login] sam
  have key_sam: "signed_with (Jwt ?sam ''default-secret-key'') = JWT_SECRET Map.empty"
    by blast
  from shared [where b = sam_login] unset fresh
  have forged: "authenticateToken Map.empty 30
        (Some [Text ''Bearer'', Compact (Jwt (caller 99 ''mallory'' ''teacher'') ''default-secret-key'')])
      = Inr (caller 99 ''mallory'' ''teacher'')"
    by blast
  from shared [where b = sam_login] key_sam
  have accepted: "authenticateToken Map.empty 30
        (Some [Text ''Bearer'', Compact (Jwt ?sam ''default-secret-key'')]) = Inr ?sam"
    by (simp add: JWT_EXPIRES_IN_def)
  from ned sam key_sam forged accepted show ?thesis
    by simp
qed

section \<open>Binding\<close>

lemma well_bound_kept:
  "well_bound s \<Longrightarrow> users s' = users s \<Longrightarrow> users_seq s' = users_seq s \<Longrightarrow>
     parent_child s' = parent_child s \<Longrightarrow> well_bound s'"
  by (simp add: well_bound_def)

lemma well_bound_register:
  assumes "well_bound s"
  shows "well_bound (snd (register env now slt f1 f2 b s))"
proof -
  let ?s' = "snd (register env now slt f1 f2 b s)"
  from register_effect [of env now slt f1 f2 b s]
  have pc: "parent_child ?s' = parent_child s"
    and us: "users ?s' = users s \<and> users_seq ?s' = users_seq s
             \<or> (\<exists>row. u_id row = users_seq s \<and> users ?s' = users s @ [row]
                   \<and> users_seq ?s' = Suc (users_seq s))"
    by blast+
  from us show ?thesis
  proof
    assume "users ?s' = users s \<and> users_seq ?s' = users_seq s"
    with assms pc show ?thesis by (simp add: well_bound_kept)
  next
    assume "\<exists>row. u_id row = users_seq s \<and> users ?s' = users s @ [row]
              \<and> users_seq ?s' = Suc (users_seq s)"
    then obtain row where row: "u_id row = users_seq s" "users ?s' = users s @ [row]"
        "users_seq ?s' = Suc (users_seq s)"
      by blast
    from assms have lt: "\<forall>u \<in> set (users s). u_id u < users_seq s"
      and di: "distinct (map u_id (users s))"
      and st: "\<forall>rel \<in> set (parent_child s).
                 \<exists>u \<in> set (users s). u_id u = child_id rel \<and> u_role u = ''student''"
      by (simp_all add: well_bound_def)
    from lt have "users_seq s \<notin> u_id ` set (users s)" by auto
    with di row have "distinct (map u_id (users ?s'))" by simp
    moreover from lt row have "\<forall>u \<in> set (users ?s'). u_id u < users_seq ?s'"
      by (auto simp: less_Suc_eq)
    moreover from st row pc
    have "\<forall>rel \<in> set (parent_child ?s').
            \<exists>u \<in> set (users ?s'). u_id u = child_id rel \<and> u_role u = ''student''"
      by auto
    ultimately show ?thesis by (simp add: well_bound_def)
  qed
qed

lemma well_bound_bind_child:
  assumes "well_bound s"
  shows "well_bound (snd (bind_child user f1 f2 b s))"
proof -
  let ?s' = "snd (bind_child user f1 f2 b s)"
  from bind_child_effect [of user f1 f2 b s]
  have us: "users ?s' = users s" "users_seq ?s' = users_seq s"
    and pc: "parent_child ?s' = parent_child s
             \<or> (\<exists>child \<in> set (users s). u_role child = ''student''
                   \<and> parent_child ?s'
                       = parent_child s @ [\<lparr>parent_id = userId user, child_id = u_id child\<rparr>])"
    by blast+
  from pc show ?thesis
  proof
    assume "parent_child ?s' = parent_child s"
    with assms us show ?thesis by (simp add: well_bound_kept)
  next
    assume "\<exists>child \<in> set (users s). u_role child = ''student''
              \<and> parent_child ?s'
                  = parent_child s @ [\<lparr>parent_id = userId user, child_id = u_id child\<rparr>]"
    then obtain child where "child \<in> set (users s)" "u_role child = ''student''"
        "parent_child ?s' = parent_child s @ [\<lparr>parent_id = userId user, child_id = u_id child\<rparr>]"
      by blast
    with assms us show ?thesis
      by (auto simp: well_bound_def)
  qed
qed

lemma reachable_well_bound: "reachable s \<Longrightarrow> well_bound s"
proof (induction rule: reachable.induct)
  case start
  show ?case by (simp add: well_bound_def empty_store_def)
next
  case (by_register s env now slt f1 f2 b)
  then show ?case by (simp add: well_bound_register)
next
  case (by_login s env now f1 b)
  then show ?case using login_effect [of env now f1 b s] by (simp add: well_bound_kept)
next
  case (by_post_homework s user now f1 b)
  then show ?case using post_homework_effect [of user now f1 b s] by (simp add: well_bound_kept)
next
  case (by_get_homework s user f1 f2)
  then show ?case using get_homework_effect [of user f1 f2 s] by (simp add: well_bound_kept)
next
  case (by_bind_child s user f1 f2 b)
  then show ?case by (simp add: well_bound_bind_child)
qed

lemma bind_child_not_student:
  assumes "role user = ''parent''" and "\<not> falsy (b ''childUsername'')"
      and "data (fst (users_eq_username f1 (the (b ''childUsername'')) s)) = Some child"
      and "u_role child \<noteq> ''student''"
  shows "bind_child user f1 f2 b s
           = (reply 400 (ErrorBody msg_not_a_student), logged (Select, ''users'') s)"
proof -
  from assms(3) have "f1 = None"
    by (cases f1) (simp_all add: users_eq_username_def failed_def)
  then have "error (fst (users_eq_username f1 (the (b ''childUsername'')) s)) = None"
    using assms(3)
    by (cases "filter (\<lambda>u. u_username u = the (b ''childUsername'')) (users s)"
          rule: maybeSingle.cases)
      (simp_all add: users_eq_username_def succeeded_def failed_def)
  with assms show ?thesis
    by (simp add: bind_child_def split_beta)
qed

text \<open>
  Claim C9. In every store that the five routes can produce from the empty one, whoever
  calls them and whichever calls fail, the child of each row of \<^verbatim>\<open>parent_child\<close> is
  the id of a stored user, and every stored user with that id has the role
  \<^verbatim>\<open>student\<close>. And when the user that the binding looks up has any other role, the
  handler answers 400 with the not-a-student message and returns the store with only the
  lookup logged: no row is inserted.
\<close>

theorem relationship_child_is_student:
  "(reachable s \<longrightarrow> rel \<in> set (parent_child s) \<longrightarrow>
      (\<exists>u \<in> set (users s). u_id u = child_id rel)
      \<and> (\<forall>u \<in> set (users s). u_id u = child_id rel \<longrightarrow> u_role u = ''student''))
   \<and> (role user = ''parent'' \<longrightarrow> \<not> falsy (b ''childUsername'') \<longrightarrow>
       data (fst (users_eq_username f1 (the (b ''childUsername'')) s')) = Some child \<longrightarrow>
       u_role child \<noteq> ''student'' \<longrightarrow>
         bind_child user f1 f2 b s'
           = (reply 400 (ErrorBody msg_not_a_student), logged (Select, ''users'') s'))"
proof (intro conjI impI)
  assume "reachable s" and rel: "rel \<in> set (parent_child s)"
  then have wb: "well_bound s" by (simp add: reachable_well_bound)
  with rel obtain c where c: "c \<in> set (users s)" "u_id c = child_id rel" "u_role c = ''student''"
    by (auto simp: well_bound_def)
  then show "\<exists>u \<in> set (users s). u_id u = child_id rel" by blast
  from wb have "inj_on u_id (set (users s))"
    by (simp add: well_bound_def distinct_map)
  with c have "u = c" if "u \<in> set (users s)" and "u_id u = child_id rel" for u
    using that by (simp add: inj_on_def)
  with c show "\<forall>u \<in> set (users s). u_id u = child_id rel \<longrightarrow> u_role u = ''student''"
    by blast
next
  assume "role user = ''parent''" and "\<not> falsy (b ''childUsername'')"
     and "data (fst (users_eq_username f1 (the (b ''childUsername'')) s')) = Some child"
     and "u_role child \<noteq> ''student''"
  then show "bind_child user f1 f2 b s'
               = (reply 400 (ErrorBody msg_not_a_student), logged (Select, ''users'') s')"
    by (rule bind_child_not_student)
qed

lemma first_day_tables:
  "users first_day = [student_row 0 ''sam'' ''student'']
   \<and> parent_child first_day = [\<lparr>parent_id = 1, child_id = 0\<rparr>]"
proof -
  have reg: "snd (register Map.empty 1 ''salt'' None None sam_body empty_store)
               = logged (Insert, ''users'')
                   (logged (Select, ''users'') empty_store
                      \<lparr>users := [student_row 0 ''sam'' ''student''], users_seq := 1\<rparr>)"
    by (subst register_created)
      (simp_all add: sam_body_def users_or_plain users_or_failed plain_def nesting_def split_beta empty_store_def succeeded_def new_row_def
         student_row_def js_or_def)
  show ?thesis
    unfolding first_day_def reg
    by (simp add: bind_child_def caller_def users_eq_username_def succeeded_def student_row_def
          parent_child_insert_def empty_store_def logged_def)
qed

theorem relationship_child_is_student_witness:
  "reachable first_day
   \<and> \<lparr>parent_id = 1, child_id = 0\<rparr> \<in> set (parent_child first_day)
   \<and> map u_role (filter (\<lambda>u. u_id u = 0) (users first_day)) = [''student'']
   \<and> bind_child (caller 3 ''pat'' ''parent'') None None [''childUsername'' \<mapsto> ''tina''] school
       = (reply 400 (ErrorBody msg_not_a_student), logged (Select, ''users'') school)"
proof -
  have "reachable (empty_store\<lparr>other_filters := strict_filters\<rparr>)"
    by (rule reachable.start)
  then have "reachable empty_store"
    by (simp add: empty_store_def)
  then have r: "reachable first_day"
    unfolding first_day_def by (intro reachable.by_bind_child reachable.by_register)
  have m: "\<lparr>parent_id = 1, child_id = 0\<rparr> \<in> set (parent_child first_day)"
    by (simp add: first_day_tables)
  have p: "role (caller 3 ''pat'' ''parent'') = ''parent''"
    and n: "\<not> falsy ([''childUsername'' \<mapsto> ''tina''] ''childUsername'')"
    by (simp_all add: caller_def)
  have t: "data (fst (users_eq_username None (the ([''childUsername'' \<mapsto> ''tina''] ''childUsername''))
                        school)) = Some (student_row 2 ''tina'' ''teacher'')"
    by (simp add: users_eq_username_def school_def student_row_def succeeded_def)
  have o: "u_role (student_row 2 ''tina'' ''teacher'') \<noteq> ''student''"
    by (simp add: student_row_def)
  from relationship_child_is_student
         [of first_day "\<lparr>parent_id = 1, child_id = 0\<rparr>" "caller 3 ''pat'' ''parent''"
             "[''childUsername'' \<mapsto> ''tina'']" None school "student_row 2 ''tina'' ''teacher''" None]
       r m p n t o
  show ?thesis by (simp add: first_day_tables student_row_def)
qed

end
